theory Spec2Isabelle
  imports Complex_Main
begin

section \<open>Errors\<close>

text \<open>
  Every \<^verbatim>\<open>throw new Error(...)\<close> of the backend, and every exception of the runtime or
  of the chain client that the modelled code can meet, is a constructor here. The
  source distinguishes its errors by their message only; the constructors follow the
  messages.
\<close>

datatype error =
    InsufficientInputAmount
      \<comment> \<open>\<^verbatim>\<open>'Insufficient input amount'\<close> (calculations.ts)\<close>
  | InsufficientLiquidity
      \<comment> \<open>\<^verbatim>\<open>'Insufficient liquidity'\<close> (calculations.ts)\<close>
  | DivisionByZero
      \<comment> \<open>\<^verbatim>\<open>RangeError: Division by zero\<close>, raised by BigInt division\<close>
  | InvalidAddress string
      \<comment> \<open>\<^verbatim>\<open>`Invalid address: ${address}`\<close> (validation.ts)\<close>
  | InvalidDecimalNumber string
      \<comment> \<open>raised by the chain client's \<^verbatim>\<open>parseUnits\<close>\<close>
  | BigIntSyntaxError string
      \<comment> \<open>\<^verbatim>\<open>SyntaxError: Cannot convert ... to a BigInt\<close>\<close>
  | EncodingFailed
      \<comment> \<open>raised by the chain client's \<^verbatim>\<open>encodeFunctionData\<close>\<close>
  | ChainReadFailed
      \<comment> \<open>a contract read that reverts or fails in transport\<close>
  | NoAdaptersConfigured
      \<comment> \<open>\<^verbatim>\<open>'No DEX adapters configured'\<close> (aggregatorService.ts)\<close>
  | NoLiquidityFound
      \<comment> \<open>\<^verbatim>\<open>'No liquidity found for this token pair on any DEX'\<close>\<close>
  | FeeTierRequired
      \<comment> \<open>\<^verbatim>\<open>'Fee tier is required for V3 quotes'\<close> (V3DexAdapter)\<close>
  | QuoteFailed string error
      \<comment> \<open>\<^verbatim>\<open>`Failed to get quote from ${name}: ...`\<close>, wrapping the cause (adapters)\<close>

section \<open>BigInt arithmetic\<close>

text \<open>
  A JavaScript \<^verbatim>\<open>bigint\<close> is an unbounded integer. Its division truncates towards zero
  and raises a RangeError when the divisor is zero.
\<close>

definition bigint_quot :: "int \<Rightarrow> int \<Rightarrow> int" where
  \<comment> \<open>the quotient truncated towards zero, for a divisor other than zero\<close>
  "bigint_quot a b = sgn a * sgn b * (\<bar>a\<bar> div \<bar>b\<bar>)"

definition bigint_div :: "int \<Rightarrow> int \<Rightarrow> error + int" where
  "bigint_div a b = (if b = 0 then Inl DivisionByZero else Inr (bigint_quot a b))"

section \<open>Numeric primitives (utils/calculations.ts)\<close>


text \<open>
  \<^verbatim>\<open>
  export function validateReserves(reserve0: bigint, reserve1: bigint): void {
    if (reserve0 === 0n || reserve1 === 0n) {
      throw new Error('Insufficient liquidity: one or both reserves are zero');
    }
  }
  \<close>
  \<^verbatim>\<open>V2Service.getQuote\<close> runs this check and then asks the on-chain router for the
  amount; the router is a contract outside the repository.
\<close>

definition validateReserves :: "int \<Rightarrow> int \<Rightarrow> error + unit" where
  "validateReserves reserve0 reserve1 =
     (if reserve0 = 0 \<or> reserve1 = 0 then Inl InsufficientLiquidity else Inr ())"

section \<open>Strings and numbers of the runtime\<close>

text \<open>
  \<^verbatim>\<open>String.prototype.toLowerCase\<close> and \<^verbatim>\<open>toUpperCase\<close> on ASCII text (addresses and
  token symbols are ASCII).
\<close>

definition toLowerChar :: "char \<Rightarrow> char" where
  "toLowerChar c =
     (case map_of (zip ''ABCDEFGHIJKLMNOPQRSTUVWXYZ'' ''abcdefghijklmnopqrstuvwxyz'') c of
        Some l \<Rightarrow> l | None \<Rightarrow> c)"

definition toUpperChar :: "char \<Rightarrow> char" where
  "toUpperChar c =
     (case map_of (zip ''abcdefghijklmnopqrstuvwxyz'' ''ABCDEFGHIJKLMNOPQRSTUVWXYZ'') c of
        Some u \<Rightarrow> u | None \<Rightarrow> c)"

definition toLowerCase :: "string \<Rightarrow> string" where
  "toLowerCase s = map toLowerChar s"

definition toUpperCase :: "string \<Rightarrow> string" where
  "toUpperCase s = map toUpperChar s"

definition padStart :: "nat \<Rightarrow> char \<Rightarrow> string \<Rightarrow> string" where
  "padStart n c s = replicate (n - length s) c @ s"

definition padEnd :: "nat \<Rightarrow> char \<Rightarrow> string \<Rightarrow> string" where
  "padEnd n c s = s @ replicate (n - length s) c"

definition stripTrailingZeros :: "string \<Rightarrow> string" where
  \<comment> \<open>\<^verbatim>\<open>s.replace(/(0+)$/, '')\<close>\<close>
  "stripTrailingZeros s = rev (dropWhile (\<lambda>c. c = CHR ''0'') (rev s))"

definition isDigit :: "char \<Rightarrow> bool" where
  "isDigit c = (c \<in> set ''0123456789'')"

definition digit_val :: "char \<Rightarrow> nat" where
  "digit_val c =
     (case map_of (zip ''0123456789'' [0, 1, 2, 3, 4, 5, 6, 7, 8, 9]) c of
        Some n \<Rightarrow> n | None \<Rightarrow> 0)"

definition digit_char :: "nat \<Rightarrow> char" where
  "digit_char n = ''0123456789'' ! (n mod 10)"

text \<open>The value of a string of decimal digits; the empty string counts as zero.\<close>

definition digits_val :: "string \<Rightarrow> nat" where
  "digits_val s = foldl (\<lambda>acc c. 10 * acc + digit_val c) 0 s"

text \<open>\<^verbatim>\<open>n.toString()\<close> for a non-negative integer, and for any \<^verbatim>\<open>bigint\<close>.\<close>

fun nat_toString :: "nat \<Rightarrow> string" where
  "nat_toString n =
     (if n < 10 then [digit_char n]
      else nat_toString (n div 10) @ [digit_char (n mod 10)])"

declare nat_toString.simps [simp del]

definition bigint_toString :: "int \<Rightarrow> string" where
  "bigint_toString i =
     (if i < 0 then CHR ''-'' # nat_toString (nat (- i)) else nat_toString (nat i))"

text \<open>
  \<^verbatim>\<open>BigInt(s)\<close> on the strings the modelled code builds: an optional minus sign and
  decimal digits. The empty string converts to zero; a lone minus sign is a syntax
  error.
\<close>

definition BigInt :: "string \<Rightarrow> error + int" where
  "BigInt s =
     (case s of
        [] \<Rightarrow> Inr 0
      | c # r \<Rightarrow>
          if c = CHR ''-'' then
            (if r \<noteq> [] \<and> list_all isDigit r then Inr (- int (digits_val r))
             else Inl (BigIntSyntaxError s))
          else if list_all isDigit s then Inr (int (digits_val s))
          else Inl (BigIntSyntaxError s))"

text \<open>
  A JavaScript \<^verbatim>\<open>number\<close> is an IEEE double. The model keeps the exact rational value
  instead: the rounding of a double to 53 bits is not modelled, and the values that
  are not numbers (NaN, the infinities) are absent, except where \<open>parseFloat\<close> says
  \<open>None\<close> for NaN.

  \<^verbatim>\<open>Number.prototype.toFixed(f)\<close>: the decimal expansion with \<open>f\<close> fractional digits,
  rounded half up on the magnitude. From \<open>10^21\<close> on, the runtime prints the number by
  \<^verbatim>\<open>Number::toString\<close>, whose digits are those of the double: the model gives
  \<open>None\<close> there.
\<close>

definition round_half_up :: "rat \<Rightarrow> nat" where
  "round_half_up x = nat \<lfloor>x + 1 / 2\<rfloor>"

definition toFixed :: "nat \<Rightarrow> rat \<Rightarrow> string option" where
  "toFixed f x =
     (if 10 ^ 21 \<le> \<bar>x\<bar> then None
      else
        let n = round_half_up (\<bar>x\<bar> * 10 ^ f);
            m = (if f = 0 then nat_toString n
                 else let p = padStart (f + 1) (CHR ''0'') (nat_toString n);
                          k = length p - f
                      in take k p @ ''.'' @ drop k p)
        in Some ((if x < 0 then ''-'' else []) @ m))"

text \<open>
  \<^verbatim>\<open>Number.prototype.toExponential(f)\<close> for a number other than zero: \<open>e\<close> and \<open>n\<close> with
  \<open>10^f \<le> n < 10^(f+1)\<close> and \<open>n * 10^(e - f)\<close> nearest to the magnitude, the larger one
  on a tie.
\<close>

fun negExponentSearch :: "rat \<Rightarrow> nat \<Rightarrow> nat \<Rightarrow> nat" where
  "negExponentSearch x 0 k = k"
| "negExponentSearch x (Suc fuel) k =
     (if 1 \<le> x * 10 ^ k then k else negExponentSearch x fuel (Suc k))"

definition decimalExponent :: "rat \<Rightarrow> int" where
  \<comment> \<open>for \<open>x > 0\<close>: the \<open>e\<close> with \<open>10^e \<le> x < 10^(e+1)\<close>\<close>
  "decimalExponent x =
     (if 1 \<le> x then int (length (nat_toString (nat \<lfloor>x\<rfloor>))) - 1
      else - int (negExponentSearch x
                    (length (nat_toString (nat (snd (quotient_of x))))) 1))"

definition pow10 :: "int \<Rightarrow> rat" where
  "pow10 e = (if 0 \<le> e then 10 ^ nat e else 1 / 10 ^ nat (- e))"

definition toExponential :: "nat \<Rightarrow> rat \<Rightarrow> string" where
  "toExponential f x =
     (let a = \<bar>x\<bar>;
          e0 = decimalExponent a;
          n0 = round_half_up (a * 10 ^ f / pow10 e0);
          e = (if 10 ^ (f + 1) \<le> n0 then e0 + 1 else e0);
          n = (if 10 ^ (f + 1) \<le> n0 then 10 ^ f else n0);
          m = nat_toString n
      in (if x < 0 then ''-'' else [])
         @ take 1 m @ (if f = 0 then [] else ''.'' @ drop 1 m)
         @ ''e'' @ (if 0 \<le> e then ''+'' else ''-'') @ nat_toString (nat \<bar>e\<bar>))"

text \<open>
  \<^verbatim>\<open>parseFloat\<close> on a decimal literal without exponent (the only strings
  \<open>formatUnits\<close> produces): the longest prefix made of a sign, digits, a point and
  digits. \<open>None\<close> is NaN.
\<close>

definition parseFloat :: "string \<Rightarrow> rat option" where
  "parseFloat s =
     (let neg = (s \<noteq> [] \<and> hd s = CHR ''-'');
          r = (if s \<noteq> [] \<and> (hd s = CHR ''-'' \<or> hd s = CHR ''+'') then tl s else s);
          ip = takeWhile isDigit r;
          rest = dropWhile isDigit r;
          fp = (if rest \<noteq> [] \<and> hd rest = CHR ''.'' then takeWhile isDigit (tl rest) else [])
      in if ip = [] \<and> fp = [] then None
         else
           let v = rat_of_nat (digits_val ip) + rat_of_nat (digits_val fp) / 10 ^ length fp
           in Some (if neg then - v else v))"

section \<open>Unit conversion of the chain client\<close>

text \<open>
  \<open>parseUnits\<close> and \<open>formatUnits\<close> belong to the chain client library (viem), not to
  the repository; they are modelled from the library's published behaviour.

  \<open>formatUnits value decimals\<close>: the decimal digits of \<open>value\<close>, padded on the left
  to \<open>decimals\<close> digits, split \<open>decimals\<close> digits from the right; trailing zeros of the
  fraction are dropped, an empty integer part is \<open>0\<close>, an empty fraction drops the point.
\<close>

definition formatUnits :: "int \<Rightarrow> nat \<Rightarrow> string" where
  "formatUnits v decimals =
     (let negative = v < 0;
          display = padStart decimals (CHR ''0'') (nat_toString (nat \<bar>v\<bar>));
          integer = take (length display - decimals) display;
          fraction = stripTrailingZeros (drop (length display - decimals) display)
      in (if negative then ''-'' else [])
         @ (if integer = [] then ''0'' else integer)
         @ (if fraction = [] then [] else ''.'' @ fraction))"

text \<open>
  \<open>parseUnits value decimals\<close>: the value must match
  \<^verbatim>\<open>/^(-?)([0-9]*)\.?([0-9]*)$/\<close>; the fraction loses its trailing zeros, is rounded
  half up to \<open>decimals\<close> digits when it is longer and padded with zeros when it is
  shorter; integer part and fraction are then read as one integer. (The library rounds
  through a double; the model rounds exactly.)
\<close>

definition decimalNumberRegex :: "string \<Rightarrow> bool" where
  "decimalNumberRegex s =
     (let s1 = (if s \<noteq> [] \<and> hd s = CHR ''-'' then tl s else s);
          r = dropWhile isDigit s1;
          r' = (if r \<noteq> [] \<and> hd r = CHR ''.'' then tl r else r)
      in list_all isDigit r')"

definition roundsUp :: "string \<Rightarrow> bool" where
  \<comment> \<open>\<^verbatim>\<open>Math.round(Number(`.${digits}`)) === 1\<close>: the digits, read after the point, are at least one half\<close>
  "roundsUp ds = (ds \<noteq> [] \<and> 5 \<le> digit_val (hd ds))"

definition parseUnits :: "string \<Rightarrow> nat \<Rightarrow> error + int" where
  "parseUnits v decimals =
     (if \<not> decimalNumberRegex v then Inl (InvalidDecimalNumber v)
      else
        let integer0 = takeWhile (\<lambda>c. c \<noteq> CHR ''.'') v;
            fraction0 = (if CHR ''.'' \<in> set v then tl (dropWhile (\<lambda>c. c \<noteq> CHR ''.'') v) else ''0'');
            negative = (integer0 \<noteq> [] \<and> hd integer0 = CHR ''-'');
            integer1 = (if negative then tl integer0 else integer0);
            fraction1 = stripTrailingZeros fraction0;
            (integer, fraction) =
              (if decimals = 0 then
                 ((if roundsUp fraction1 then nat_toString (digits_val integer1 + 1) else integer1),
                  [])
               else if decimals < length fraction1 then
                 let left = take (decimals - 1) fraction1;
                     unit = take 1 (drop (decimals - 1) fraction1);
                     right = drop decimals fraction1;
                     rounded = digits_val unit + (if roundsUp right then 1 else 0);
                     fraction2 =
                       (if 9 < rounded
                        then padStart (length left + 1) (CHR ''0'')
                               (nat_toString (digits_val left + 1) @ ''0'')
                        else left @ nat_toString rounded)
                 in if decimals < length fraction2
                    then (nat_toString (digits_val integer1 + 1), take decimals (tl fraction2))
                    else (integer1, take decimals fraction2)
               else (integer1, padEnd decimals (CHR ''0'') fraction1))
        in BigInt ((if negative then ''-'' else []) @ integer @ fraction))"

section \<open>Formatting (utils/formatting.ts)\<close>

text \<open>
  \<^verbatim>\<open>
  export function formatTokenAmount(amount: bigint, decimals: number, maxDecimals: number = 6): string {
    const formatted = formatUnits(amount, decimals);
    const num = parseFloat(formatted);
    if (num === 0) return '0';
    if (num < 0.000001) { return num.toExponential(4); }
    return num.toFixed(Math.min(maxDecimals, decimals));
  }
  export function parseTokenAmount(amount: string, decimals: number): bigint {
    return parseUnits(amount, decimals);
  }
  \<close>
  The result is \<open>None\<close> where \<open>toFixed\<close> is.
\<close>

definition formatTokenAmount :: "int \<Rightarrow> nat \<Rightarrow> nat \<Rightarrow> string option" where
  "formatTokenAmount amount decimals maxDecimals =
     (case parseFloat (formatUnits amount decimals) of
        None \<Rightarrow> Some ''NaN''
      | Some num \<Rightarrow>
          if num = 0 then Some ''0''
          else if num < 1 / 1000000 then Some (toExponential 4 num)
          else toFixed (min maxDecimals decimals) num)"

definition parseTokenAmount :: "string \<Rightarrow> nat \<Rightarrow> error + int" where
  "parseTokenAmount amount decimals = parseUnits amount decimals"

section \<open>Data model (types/common.ts, adapters/DexAdapter.ts, services/aggregatorService.ts)\<close>

record Token =
  address :: string
  symbol :: string
  name :: string
  decimals :: nat
  isNative :: "bool option"

datatype DexVersion = Version_v2 | Version_v3

record DexConfig =
  cfg_name :: string
  version :: DexVersion
  factoryAddress :: string
  routerAddress :: "string option"
  quoterAddress :: "string option"
  initCodeHash :: "string option"

datatype Dex = V2 | V3

datatype WarningLevel = Low | Medium | High | VeryHigh | Extreme

record PriceImpactWarning =
  level :: WarningLevel
  message :: string
  shouldWarn :: bool
  shouldBlock :: bool

text \<open>
  \<open>amountOut\<close> and \<open>gasEstimate\<close> are \<^verbatim>\<open>bigint\<close>s, \<open>priceImpact\<close> is a \<^verbatim>\<open>number\<close>
  (kept as its rational value), the optional fields are options.
\<close>

record DexQuote =
  dex :: Dex
  dexName :: string
  amountOut :: int
  priceImpact :: rat
  priceImpactWarning :: "PriceImpactWarning option"
  gasEstimate :: "int option"
  feeTier :: "nat option"
  poolAddress :: "string option"

record Savings =
  percentage :: rat
  absoluteAmount :: int

record AggregatedQuote =
  bestQuote :: DexQuote
  allQuotes :: "DexQuote list"
  tokenIn :: Token
  tokenOut :: Token
  amountIn :: int
  savings :: Savings
  recommendation :: "string option"

section \<open>Price-impact bands (utils/priceImpact.ts)\<close>

definition getPriceImpactWarning :: "rat \<Rightarrow> PriceImpactWarning" where
  "getPriceImpactWarning impact =
     (if impact < 1 then
        \<lparr>level = Low, message = ''Low price impact'', shouldWarn = False, shouldBlock = False\<rparr>
      else if impact < 3 then
        \<lparr>level = Medium, message = ''Medium price impact'', shouldWarn = True, shouldBlock = False\<rparr>
      else if impact < 5 then
        \<lparr>level = High, message = ''High price impact'', shouldWarn = True, shouldBlock = False\<rparr>
      else if impact < 15 then
        \<lparr>level = VeryHigh,
         message = ''Very high price impact - you may lose a significant portion of your funds'',
         shouldWarn = True, shouldBlock = False\<rparr>
      else
        \<lparr>level = Extreme,
         message = ''Extreme price impact - this trade will result in major losses'',
         shouldWarn = True, shouldBlock = True\<rparr>)"

section \<open>What lies outside the repository\<close>

text \<open>
  The calls the swap routers accept, as the route handler builds them: the function
  name and its arguments. Their ABI encoding is the chain client's.
\<close>

datatype RouterCall =
    ExactInputSingle string string "nat option" string nat int int int
      \<comment> \<open>tokenIn, tokenOut, fee (the quote's optional fee tier), recipient, deadline, amountIn,
          amountOutMinimum, sqrtPriceLimitX96\<close>
  | SwapExactETHForTokens int "string list" string nat
      \<comment> \<open>amountOutMin, path, to, deadline\<close>
  | SwapExactTokensForETH int int "string list" string nat
      \<comment> \<open>amountIn, amountOutMin, path, to, deadline\<close>
  | SwapExactTokensForTokens int int "string list" string nat
      \<comment> \<open>amountIn, amountOutMin, path, to, deadline\<close>

text \<open>
  Everything the modelled code consults that is not code of the repository is a field
  of this record, so every function below is a function of it:
  \<^item> the ERC-20 reads of the chain client (\<open>erc20_allowance token owner spender\<close>);
  \<^item> \<open>v2_quote_reads cfg tokenIn tokenOut amountIn\<close>: what the try block of
    \<^verbatim>\<open>V2DexAdapter.getQuote\<close> obtains from the factory, the pair and the router and
    computes from it in doubles: the pair address, the amount out and the price impact,
    or the error it meets; \<open>v3_quote_reads\<close> likewise for a fee tier of a V3 venue (pool
    address, amount out, price impact);
  \<^item> \<open>keccak_nibble h i\<close>: hex digit \<open>i\<close> of the Keccak-256 hash of the text \<open>h\<close>, which
    decides the letter case of a checksummed address;
  \<^item> \<open>encodeFunctionData\<close>: the ABI encoding of a router call, which may raise;
  \<^item> the environment variables, absent or set;
  \<^item> \<open>now_seconds\<close>: \<^verbatim>\<open>Math.floor(Date.now() / 1000)\<close>.
\<close>

record External =
  erc20_name :: "string \<Rightarrow> error + string"
  erc20_symbol :: "string \<Rightarrow> error + string"
  erc20_decimals :: "string \<Rightarrow> error + nat"
  erc20_allowance :: "string \<Rightarrow> string \<Rightarrow> string \<Rightarrow> error + int"
  v2_quote_reads :: "DexConfig \<Rightarrow> string \<Rightarrow> string \<Rightarrow> int \<Rightarrow> error + (string \<times> int \<times> rat)"
  v3_quote_reads :: "DexConfig \<Rightarrow> string \<Rightarrow> string \<Rightarrow> int \<Rightarrow> nat \<Rightarrow> error + (string \<times> int \<times> rat)"
  keccak_nibble :: "string \<Rightarrow> nat \<Rightarrow> nat"
  encodeFunctionData :: "RouterCall \<Rightarrow> error + string"
  env_FACTORY_ADDRESS :: "string option"
  env_ROUTER_ADDRESS :: "string option"
  env_INIT_CODE_HASH :: "string option"
  env_V3_FACTORY_ADDRESS :: "string option"
  env_V3_QUOTER_ADDRESS :: "string option"
  env_V3_SWAP_ROUTER_ADDRESS :: "string option"
  now_seconds :: nat

text \<open>
  The contract reads a function issues are logged beside its result: a computation is
  the list of ERC-20 reads it starts, in order, and the value or the error it ends
  with. The reads behind \<open>v2_quote_reads\<close> and \<open>v3_quote_reads\<close> are not in the log; none
  of them is an allowance read.
\<close>

datatype ChainCall =
    Erc20Name string
  | Erc20Symbol string
  | Erc20Decimals string
  | Erc20Allowance string string string
      \<comment> \<open>token, owner, spender\<close>

type_synonym 'a traced = "ChainCall list \<times> (error + 'a)"

definition returnT :: "'a \<Rightarrow> 'a traced" where
  "returnT x = ([], Inr x)"

definition throwT :: "error \<Rightarrow> 'a traced" where
  "throwT e = ([], Inl e)"

definition liftT :: "error + 'a \<Rightarrow> 'a traced" where
  "liftT r = ([], r)"

definition bindT :: "'a traced \<Rightarrow> ('a \<Rightarrow> 'b traced) \<Rightarrow> 'b traced" where
  "bindT m f =
     (case m of
        (cs, Inl e) \<Rightarrow> (cs, Inl e)
      | (cs, Inr x) \<Rightarrow> (case f x of (cs', r) \<Rightarrow> (cs @ cs', r)))"

text \<open>
  \<^verbatim>\<open>Promise.all\<close>: every computation has been started, so every read is issued; the
  result is the list of values, or an error when one fails (the first in list order
  here; the runtime takes the first in time).
\<close>

definition promiseAll2 :: "'a traced \<Rightarrow> 'b traced \<Rightarrow> ('a \<times> 'b) traced" where
  "promiseAll2 m1 m2 =
     (case (m1, m2) of
        ((cs1, r1), (cs2, r2)) \<Rightarrow>
          (cs1 @ cs2,
           case r1 of
             Inl e \<Rightarrow> Inl e
           | Inr x \<Rightarrow> (case r2 of Inl e \<Rightarrow> Inl e | Inr y \<Rightarrow> Inr (x, y))))"

fun promiseAll :: "'a traced list \<Rightarrow> ('a list) traced" where
  "promiseAll [] = ([], Inr [])"
| "promiseAll ((cs, r) # ms) =
     (case promiseAll ms of
        (cs', rs) \<Rightarrow>
          (cs @ cs',
           case r of
             Inl e \<Rightarrow> Inl e
           | Inr x \<Rightarrow> (case rs of Inl e \<Rightarrow> Inl e | Inr xs \<Rightarrow> Inr (x # xs))))"

section \<open>Addresses (utils/validation.ts, config/tokens.ts)\<close>

text \<open>
  \<open>isAddress\<close> and \<open>getAddress\<close> are the chain client's: forty hex digits after
  \<open>0x\<close>; an address with an upper-case letter must be in checksum case. The checksum
  upper-cases the letters whose hash digit is at least 8.
\<close>

definition isHexChar :: "char \<Rightarrow> bool" where
  "isHexChar c = (c \<in> set ''0123456789abcdefABCDEF'')"

definition addressRegex :: "string \<Rightarrow> bool" where
  \<comment> \<open>\<^verbatim>\<open>/^0x[a-fA-F0-9]{40}$/\<close>\<close>
  "addressRegex a = (length a = 42 \<and> take 2 a = ''0x'' \<and> list_all isHexChar (drop 2 a))"

definition checksumAddress :: "(string \<Rightarrow> nat \<Rightarrow> nat) \<Rightarrow> string \<Rightarrow> string" where
  "checksumAddress H a =
     (let hexAddress = toLowerCase (drop 2 a)
      in ''0x'' @ map (\<lambda>(i, c). if i < 40 \<and> 8 \<le> H hexAddress i then toUpperChar c else c)
                   (zip [0..<length hexAddress] hexAddress))"

definition isAddress :: "(string \<Rightarrow> nat \<Rightarrow> nat) \<Rightarrow> string \<Rightarrow> bool" where
  "isAddress H a = (addressRegex a \<and> (toLowerCase a = a \<or> checksumAddress H a = a))"

text \<open>
  \<^verbatim>\<open>
  export function validateAddress(address: string): Address {
    if (!isAddress(address)) { throw new Error(`Invalid address: ${address}`); }
    return getAddress(address);
  }
  \<close>
\<close>

definition validateAddress :: "(string \<Rightarrow> nat \<Rightarrow> nat) \<Rightarrow> string \<Rightarrow> error + string" where
  "validateAddress H a =
     (if \<not> isAddress H a then Inl (InvalidAddress a) else Inr (checksumAddress H a))"

definition NATIVE_TOKEN_ADDRESS :: string where
  "NATIVE_TOKEN_ADDRESS = ''0xEeeeeEeeeEeEeeEeEeEeeEEEeeeeEeeeeeeeEEeE''"

definition isNativeToken :: "string \<Rightarrow> bool" where
  "isNativeToken tokenAddress = (toLowerCase tokenAddress = toLowerCase NATIVE_TOKEN_ADDRESS)"

definition MAINNET_TOKENS :: "Token list" where
  "MAINNET_TOKENS =
     [\<lparr>address = ''0xEeeeeEeeeEeEeeEeEeEeeEEEeeeeEeeeeeeeEEeE'', symbol = ''DOT'',
       name = ''Polkadot'', decimals = 18, isNative = Some True\<rparr>,
      \<lparr>address = ''0xF8Eb4Ed0d4CF2bb707c0272F8C6827dEB6e4c0A9'', symbol = ''WBTC'',
       name = ''Wrapped Bitcoin'', decimals = 8, isNative = None\<rparr>,
      \<lparr>address = ''0xa16148c6Ac9EDe0D82f0c52899e22a575284f131'', symbol = ''USDC'',
       name = ''USD Coin'', decimals = 6, isNative = None\<rparr>,
      \<lparr>address = ''0x50498dC52bCd3dAeB54B7225A7d2FA8D536F313E'', symbol = ''WETH'',
       name = ''Wrapped Ether'', decimals = 18, isNative = None\<rparr>,
      \<lparr>address = ''0x9F8CF9c00fac501b3965872f4ed3271f6f4d06fF'', symbol = ''USDT'',
       name = ''Tether'', decimals = 6, isNative = None\<rparr>,
      \<lparr>address = ''0xDc556F7209C48fC53a8cDf1339c033743A7e3e75'', symbol = ''DAI'',
       name = ''Dai Stablecoin'', decimals = 18, isNative = None\<rparr>,
      \<lparr>address = ''0xE5747226D2005d7f0865780E8517397de66f2a76'', symbol = ''FDUSD'',
       name = ''First Digital USD'', decimals = 18, isNative = None\<rparr>]"

text \<open>
  \<^verbatim>\<open>
  getByAddress(address: string): Token | undefined {
    const normalizedAddress = address.toLowerCase();
    return Object.values(this.tokens).find(
      (token) => token.address.toLowerCase() === normalizedAddress);
  }
  \<close>
\<close>

definition getByAddress :: "Token list \<Rightarrow> string \<Rightarrow> Token option" where
  "getByAddress tokens a =
     (let normalizedAddress = toLowerCase a
      in find (\<lambda>token. toLowerCase (address token) = normalizedAddress) tokens)"

section \<open>Venue configuration (config/dexes.ts)\<close>

definition envOr :: "string option \<Rightarrow> string" where
  \<comment> \<open>\<^verbatim>\<open>process.env.X || ''\<close>\<close>
  "envOr v = (case v of None \<Rightarrow> [] | Some s \<Rightarrow> s)"

definition UNISWAP_V2_FORK1 :: "External \<Rightarrow> DexConfig" where
  "UNISWAP_V2_FORK1 ext =
     \<lparr>cfg_name = ''Hammy Swap'', version = Version_v2,
      factoryAddress = envOr (env_FACTORY_ADDRESS ext),
      routerAddress = Some (envOr (env_ROUTER_ADDRESS ext)),
      quoterAddress = None,
      initCodeHash = Some (envOr (env_INIT_CODE_HASH ext))\<rparr>"

definition UNISWAP_V3_FORK1 :: "External \<Rightarrow> DexConfig" where
  "UNISWAP_V3_FORK1 ext =
     \<lparr>cfg_name = ''Surge Dex'', version = Version_v3,
      factoryAddress = envOr (env_V3_FACTORY_ADDRESS ext),
      routerAddress = Some (envOr (env_V3_SWAP_ROUTER_ADDRESS ext)),
      quoterAddress = Some (envOr (env_V3_QUOTER_ADDRESS ext)),
      initCodeHash = None\<rparr>"

definition DEXES :: "External \<Rightarrow> DexConfig list" where
  "DEXES ext = [UNISWAP_V2_FORK1 ext, UNISWAP_V3_FORK1 ext]"

definition getV2Dexes :: "DexConfig list \<Rightarrow> DexConfig list" where
  "getV2Dexes dexes = filter (\<lambda>d. version d = Version_v2) dexes"

definition getV3Dexes :: "DexConfig list \<Rightarrow> DexConfig list" where
  "getV3Dexes dexes = filter (\<lambda>d. version d = Version_v3) dexes"

section \<open>Venue adapters (adapters/)\<close>

text \<open>The class \<^verbatim>\<open>DexAdapter\<close> and its two subclasses.\<close>

datatype DexAdapter = V2DexAdapter DexConfig | V3DexAdapter DexConfig

text \<open>
  \<^verbatim>\<open>V2Service.getTokenInfo\<close> and \<^verbatim>\<open>V3Service.getTokenInfo\<close> are the same code:
  \<^verbatim>\<open>
  async getTokenInfo(tokenAddress: string): Promise<Token> {
    const address = validateAddress(tokenAddress);
    const contract = this.getTokenContract(address);
    const [name, symbol, decimals] = await Promise.all([
      contract.read.name(), contract.read.symbol(), contract.read.decimals() ]);
    return { address, name: name as string, symbol: symbol as string, decimals: Number(decimals) };
  }
  \<close>
  Both adapters delegate \<^verbatim>\<open>getTokenInfo\<close> to their service.
\<close>

definition Service_getTokenInfo :: "External \<Rightarrow> string \<Rightarrow> Token traced" where
  "Service_getTokenInfo ext tokenAddress =
     (case validateAddress (keccak_nibble ext) tokenAddress of
        Inl e \<Rightarrow> ([], Inl e)
      | Inr a \<Rightarrow>
          ([Erc20Name a, Erc20Symbol a, Erc20Decimals a],
           case erc20_name ext a of
             Inl e \<Rightarrow> Inl e
           | Inr n \<Rightarrow>
               (case erc20_symbol ext a of
                  Inl e \<Rightarrow> Inl e
                | Inr s \<Rightarrow>
                    (case erc20_decimals ext a of
                       Inl e \<Rightarrow> Inl e
                     | Inr d \<Rightarrow>
                         Inr \<lparr>address = a, symbol = s, name = n, decimals = d,
                              isNative = None\<rparr>))))"

definition adapter_getTokenInfo :: "External \<Rightarrow> DexAdapter \<Rightarrow> string \<Rightarrow> Token traced" where
  "adapter_getTokenInfo ext adapter tokenAddress = Service_getTokenInfo ext tokenAddress"

definition DEFAULT_FEE_TIERS :: "nat list" where
  "DEFAULT_FEE_TIERS = [100, 500, 3000, 10000]"

text \<open>
  \<^verbatim>\<open>V2DexAdapter.getQuote\<close>: the reads and the price impact come from the outside; the
  quote is built here. A failure is wrapped and thrown again.
\<close>

definition V2DexAdapter_getQuote ::
  "External \<Rightarrow> DexConfig \<Rightarrow> string \<Rightarrow> string \<Rightarrow> int \<Rightarrow> error + DexQuote" where
  "V2DexAdapter_getQuote ext cfg tIn tOut amt =
     (case v2_quote_reads ext cfg tIn tOut amt of
        Inl e \<Rightarrow> Inl (QuoteFailed (cfg_name cfg) e)
      | Inr (pairAddress, out, impact) \<Rightarrow>
          Inr \<lparr>dex = V2, dexName = cfg_name cfg, amountOut = out, priceImpact = impact,
               priceImpactWarning = Some (getPriceImpactWarning impact),
               gasEstimate = None, feeTier = None, poolAddress = Some pairAddress\<rparr>)"

text \<open>
  \<^verbatim>\<open>V3DexAdapter.getQuote\<close>; the gas estimate is the constant \<open>150000n\<close> of
  \<^verbatim>\<open>V3Service.quoteExactInputSingle\<close>. A fee tier of zero is refused as a missing one.
\<close>

definition V3DexAdapter_getQuote ::
  "External \<Rightarrow> DexConfig \<Rightarrow> string \<Rightarrow> string \<Rightarrow> int \<Rightarrow> nat \<Rightarrow> error + DexQuote" where
  "V3DexAdapter_getQuote ext cfg tIn tOut amt fee =
     (if fee = 0 then Inl FeeTierRequired
      else
        case v3_quote_reads ext cfg tIn tOut amt fee of
          Inl e \<Rightarrow> Inl (QuoteFailed (cfg_name cfg) e)
        | Inr (pool, out, impact) \<Rightarrow>
            Inr \<lparr>dex = V3, dexName = cfg_name cfg, amountOut = out, priceImpact = impact,
                 priceImpactWarning = Some (getPriceImpactWarning impact),
                 gasEstimate = Some 150000, feeTier = Some fee, poolAddress = Some pool\<rparr>)"

text \<open>
  \<^verbatim>\<open>getAllQuotes\<close> of the two adapters: a failed quote is logged and dropped, so neither
  raises. The V3 adapter maps over its fee tiers and keeps the quotes that are not
  null, in the order of the tiers.
\<close>

definition V2DexAdapter_getAllQuotes ::
  "External \<Rightarrow> DexConfig \<Rightarrow> string \<Rightarrow> string \<Rightarrow> int \<Rightarrow> DexQuote list" where
  "V2DexAdapter_getAllQuotes ext cfg tIn tOut amt =
     (case V2DexAdapter_getQuote ext cfg tIn tOut amt of
        Inr quote \<Rightarrow> [quote]
      | Inl e \<Rightarrow> [])"

definition V3DexAdapter_getAllQuotes ::
  "External \<Rightarrow> DexConfig \<Rightarrow> string \<Rightarrow> string \<Rightarrow> int \<Rightarrow> DexQuote list" where
  "V3DexAdapter_getAllQuotes ext cfg tIn tOut amt =
     (let results = map (\<lambda>fee. case V3DexAdapter_getQuote ext cfg tIn tOut amt fee of
                                 Inr quote \<Rightarrow> Some quote
                               | Inl e \<Rightarrow> None)
                        DEFAULT_FEE_TIERS
      in map the (filter (\<lambda>q. q \<noteq> None) results))"

fun adapter_getAllQuotes ::
  "External \<Rightarrow> DexAdapter \<Rightarrow> string \<Rightarrow> string \<Rightarrow> int \<Rightarrow> DexQuote list" where
  "adapter_getAllQuotes ext (V2DexAdapter cfg) tIn tOut amt =
     V2DexAdapter_getAllQuotes ext cfg tIn tOut amt"
| "adapter_getAllQuotes ext (V3DexAdapter cfg) tIn tOut amt =
     V3DexAdapter_getAllQuotes ext cfg tIn tOut amt"

section \<open>The aggregator (services/aggregatorService.ts)\<close>

text \<open>
  The field \<^verbatim>\<open>adapters\<close> is a \<^verbatim>\<open>Map<string, DexAdapter>\<close>: it iterates in insertion
  order, and \<^verbatim>\<open>set\<close> on a key it holds replaces the value where the key stands. The
  constructor registers the V2 venues, then the V3 venues.
\<close>

fun map_set :: "(string \<times> 'v) list \<Rightarrow> string \<Rightarrow> 'v \<Rightarrow> (string \<times> 'v) list" where
  "map_set [] k v = [(k, v)]"
| "map_set ((k', v') # m) k v = (if k' = k then (k, v) # m else (k', v') # map_set m k v)"

type_synonym AggregatorService = "(string \<times> DexAdapter) list"

definition AggregatorService_new :: "DexConfig list \<Rightarrow> AggregatorService" where
  "AggregatorService_new dexes =
     (let adapters1 = foldl (\<lambda>m dexConfig. map_set m (cfg_name dexConfig) (V2DexAdapter dexConfig))
                        [] (getV2Dexes dexes)
      in foldl (\<lambda>m dexConfig. map_set m (cfg_name dexConfig) (V3DexAdapter dexConfig))
           adapters1 (getV3Dexes dexes))"

text \<open>
  \<^verbatim>\<open>
  async getTokenInfo(tokenAddress: Address): Promise<Token> {
    const firstAdapter = Array.from(this.adapters.values())[0];
    if (!firstAdapter) { throw new Error('No DEX adapters configured to fetch token info'); }
    return await firstAdapter.getTokenInfo(tokenAddress);
  }
  \<close>
\<close>

definition getTokenInfo :: "External \<Rightarrow> AggregatorService \<Rightarrow> string \<Rightarrow> Token traced" where
  "getTokenInfo ext adapters tokenAddress =
     (case adapters of
        [] \<Rightarrow> throwT NoAdaptersConfigured
      | (k, firstAdapter) # rest \<Rightarrow> adapter_getTokenInfo ext firstAdapter tokenAddress)"

text \<open>
  \<^verbatim>\<open>getAllQuotes\<close>: every adapter is asked, a failing one contributes nothing (neither
  adapter raises, so the catch is never entered), and the results are flattened in
  the order of the adapters.
\<close>

definition getAllQuotes ::
  "External \<Rightarrow> AggregatorService \<Rightarrow> string \<Rightarrow> string \<Rightarrow> int \<Rightarrow> DexQuote list" where
  "getAllQuotes ext adapters tIn tOut amt =
     concat (map (\<lambda>(k, adapter). adapter_getAllQuotes ext adapter tIn tOut amt) adapters)"

text \<open>
  The two selections of \<^verbatim>\<open>getAggregatedQuote\<close>, on the array \<open>q # qs\<close>
  (\<^verbatim>\<open>Array.prototype.reduce\<close> without an initial value starts from the first element):
  \<^verbatim>\<open>
  const bestQuote = allQuotes.reduce((best, current) =>
    current.amountOut > best.amountOut ? current : best);
  const worstQuote = allQuotes.reduce((worst, current) =>
    current.amountOut < worst.amountOut ? current : worst);
  \<close>
\<close>

definition selectBestQuote :: "DexQuote \<Rightarrow> DexQuote list \<Rightarrow> DexQuote" where
  "selectBestQuote q qs =
     foldl (\<lambda>best current. if amountOut current > amountOut best then current else best) q qs"

definition selectWorstQuote :: "DexQuote \<Rightarrow> DexQuote list \<Rightarrow> DexQuote" where
  "selectWorstQuote q qs =
     foldl (\<lambda>worst current. if amountOut current < amountOut worst then current else worst) q qs"

text \<open>
  The recommendation string:
  \<^verbatim>\<open>
  let recommendation = `Use ${bestQuote.dexName}`;
  if (bestQuote.dex === 'V3') {
    const feePercent = (bestQuote.feeTier! / 10000).toFixed(2);
    recommendation += ` V3 (${feePercent}% fee tier)`;
  } else { recommendation += ` V2`; }
  if (savingsPercentage > 0) {
    recommendation += ` for ${savingsPercentage.toFixed(2)}% better price`;
  }
  \<close>
\<close>

definition makeRecommendation :: "DexQuote \<Rightarrow> rat \<Rightarrow> string option" where
  "makeRecommendation best savingsPercentage =
     (let feePercent = (case feeTier best of
                          None \<Rightarrow> Some ''NaN''
                        | Some fee \<Rightarrow> toFixed 2 (rat_of_nat fee / 10000));
          venue = (if dex best = V3
                   then map_option (\<lambda>fp. '' V3 ('' @ fp @ ''% fee tier)'') feePercent
                   else Some '' V2'');
          gain = (if 0 < savingsPercentage
                  then map_option (\<lambda>sp. '' for '' @ sp @ ''% better price'')
                         (toFixed 2 savingsPercentage)
                  else Some [])
      in case (venue, gain) of
           (Some v, Some g) \<Rightarrow> Some (''Use '' @ dexName best @ v @ g)
         | other \<Rightarrow> None)"

text \<open>
  The part of \<^verbatim>\<open>getAggregatedQuote\<close> that follows the reads: the emptiness check, the
  two selections, the savings (\<^verbatim>\<open>Number(savingsAbsolute * 10000n / worstQuote.amountOut) / 100\<close>,
  a BigInt division that raises on a zero worst amount) and the result.
\<close>

definition aggregateQuotes ::
  "Token \<Rightarrow> Token \<Rightarrow> int \<Rightarrow> DexQuote list \<Rightarrow> error + AggregatedQuote" where
  "aggregateQuotes tIn tOut amt quotes =
     (case quotes of
        [] \<Rightarrow> Inl NoLiquidityFound
      | q # qs \<Rightarrow>
          let best = selectBestQuote q qs;
              worst = selectWorstQuote q qs;
              savingsAbsolute = amountOut best - amountOut worst
          in case bigint_div (savingsAbsolute * 10000) (amountOut worst) of
               Inl e \<Rightarrow> Inl e
             | Inr bps \<Rightarrow>
                 let savingsPercentage = rat_of_int bps / 100
                 in Inr \<lparr>bestQuote = best, allQuotes = quotes, tokenIn = tIn, tokenOut = tOut,
                         amountIn = amt,
                         savings = \<lparr>percentage = savingsPercentage,
                                    absoluteAmount = savingsAbsolute\<rparr>,
                         recommendation = makeRecommendation best savingsPercentage\<rparr>)"

text \<open>
  \<^verbatim>\<open>getAggregatedQuote\<close>: the token metadata of both sides is read through the first
  adapter (both reads are started before either is awaited), then the quotes are
  collected and aggregated.
\<close>

definition getAggregatedQuote ::
  "External \<Rightarrow> AggregatorService \<Rightarrow> string \<Rightarrow> string \<Rightarrow> int \<Rightarrow> AggregatedQuote traced" where
  "getAggregatedQuote ext adapters tokenInAddress tokenOutAddress amt =
     (case adapters of
        [] \<Rightarrow> throwT NoAdaptersConfigured
      | (k, firstAdapter) # rest \<Rightarrow>
          bindT (promiseAll2 (adapter_getTokenInfo ext firstAdapter tokenInAddress)
                             (adapter_getTokenInfo ext firstAdapter tokenOutAddress))
            (\<lambda>(tIn, tOut).
               liftT (aggregateQuotes tIn tOut amt
                        (getAllQuotes ext adapters tokenInAddress tokenOutAddress amt))))"

section \<open>The HTTP surface: POST /api/aggregator/quote (api/routes/aggregatorRoutes.ts)\<close>

text \<open>
  The request body. A field is absent (\<open>None\<close>) or a string; \<open>slippage\<close> is a number
  and defaults to \<open>0.5\<close>. A field is falsy when it is absent or empty.
\<close>

record QuoteRequest =
  req_tokenIn :: "string option"
  req_tokenOut :: "string option"
  req_amountIn :: "string option"
  req_slippage :: "rat option"
  req_userAddress :: "string option"

definition falsy :: "string option \<Rightarrow> bool" where
  "falsy v = (case v of None \<Rightarrow> True | Some s \<Rightarrow> s = [])"

definition str :: "string option \<Rightarrow> string" where
  \<comment> \<open>the string of a field that is not falsy\<close>
  "str v = (case v of None \<Rightarrow> [] | Some s \<Rightarrow> s)"

text \<open>
  The response body. The strings printed from a double are \<open>None\<close> where \<open>toFixed\<close>
  is; \<open>slippage\<close> is kept as the number the response prints before the percent sign.
  The router addresses come from the environment and are absent when the variable is.
\<close>

record TransactionData =
  tx_to :: "string option"
  tx_data :: string
  tx_value :: string
  tx_from :: string

record ApprovalInfo =
  needed :: bool
  approval_message :: string
  approval_token :: "string option"
  approval_spender :: "string option"
  approval_amount :: "string option"

record RouteInfo =
  route_dex :: Dex
  route_dexName :: string
  route_feeTier :: "nat option"
  route_amountOut :: "string option"
  route_amountOutWei :: string
  route_priceImpact :: "string option"
  route_gasEstimate :: "string option"
  route_poolAddress :: "string option"
  transaction :: TransactionData
  approval :: ApprovalInfo

record TokenSide =
  side_address :: string
  side_symbol :: string
  side_amount :: "string option"
  side_amountWei :: string

record SavingsInfo =
  savings_percentage :: "string option"
  savings_amount :: "string option"
  savings_amountWei :: string

record QuoteData =
  data_tokenIn :: TokenSide
  data_tokenOut :: TokenSide
  bestRoute :: RouteInfo
  data_allQuotes :: "RouteInfo list"
  data_savings :: SavingsInfo
  data_slippage :: rat
  minimumAmountOut :: "string option"
  minimumAmountOutWei :: string
  data_recommendation :: "string option"

text \<open>
  A failure body carries a message the handler writes itself, or the message of the
  error it caught.
\<close>

datatype ResponseBody = Failure string | FailureOf error | Success QuoteData

type_synonym response = "nat \<times> ResponseBody"

definition ZERO_ADDRESS :: string where
  "ZERO_ADDRESS = ''0x0000000000000000000000000000000000000000''"

text \<open>
  \<^verbatim>\<open>
  const slippageBps = BigInt(Math.floor(slippage * 100));
  const minimumAmountOut = (quote.bestQuote.amountOut * (10000n - slippageBps)) / 10000n;
  \<close>
\<close>

definition slippageBps :: "rat \<Rightarrow> int" where
  "slippageBps slippage = \<lfloor>slippage * 100\<rfloor>"

definition minAmountOutOf :: "int \<Rightarrow> int \<Rightarrow> int" where
  "minAmountOutOf out bps = bigint_quot (out * (10000 - bps)) 10000"

definition routerFor :: "External \<Rightarrow> Dex \<Rightarrow> string option" where
  "routerFor ext d =
     (if d = V3 then env_V3_SWAP_ROUTER_ADDRESS ext else env_ROUTER_ADDRESS ext)"

text \<open>
  The router call and the value to send of one route, as the handler builds them for
  the best route and again for every quote:
  \<^verbatim>\<open>
  let quoteValueToSend = '0';
  if (q.dex === 'V3') {
    quoteCalldata = encodeFunctionData({ ..., functionName: 'exactInputSingle', args: [{ tokenIn,
      tokenOut, fee: q.feeTier!, recipient: '0x00..00', deadline, amountIn: amountInParsed,
      amountOutMinimum: quoteMinAmountOut, sqrtPriceLimitX96: 0n }] });
    if (isNative) { quoteValueToSend = amountInParsed.toString(); }
  } else {
    const path = [tokenIn as Address, tokenOut as Address];
    if (isNative) {
      quoteCalldata = encodeFunctionData({ ..., functionName: 'swapExactETHForTokens',
        args: [quoteMinAmountOut, path, '0x00..00', deadline] });
      quoteValueToSend = amountInParsed.toString();
    } else if (isNativeToken(tokenOut as Address)) {
      quoteCalldata = encodeFunctionData({ ..., functionName: 'swapExactTokensForETH',
        args: [amountInParsed, quoteMinAmountOut, path, '0x00..00', deadline] });
    } else {
      quoteCalldata = encodeFunctionData({ ..., functionName: 'swapExactTokensForTokens',
        args: [amountInParsed, quoteMinAmountOut, path, '0x00..00', deadline] });
    }
  }
  \<close>
\<close>

definition routeCall ::
  "DexQuote \<Rightarrow> bool \<Rightarrow> string \<Rightarrow> string \<Rightarrow> int \<Rightarrow> int \<Rightarrow> nat \<Rightarrow> RouterCall \<times> string" where
  "routeCall q isNat tIn tOut amountInParsed minOut deadline =
     (if dex q = V3 then
        (ExactInputSingle tIn tOut (feeTier q) ZERO_ADDRESS deadline amountInParsed minOut 0,
         if isNat then bigint_toString amountInParsed else ''0'')
      else
        let path = [tIn, tOut]
        in if isNat then
             (SwapExactETHForTokens minOut path ZERO_ADDRESS deadline,
              bigint_toString amountInParsed)
           else if isNativeToken tOut then
             (SwapExactTokensForETH amountInParsed minOut path ZERO_ADDRESS deadline, ''0'')
           else
             (SwapExactTokensForTokens amountInParsed minOut path ZERO_ADDRESS deadline, ''0''))"

text \<open>
  \<^verbatim>\<open>
  const checkApprovalNeeded = async (spenderAddress: Address): Promise<boolean> => {
    if (isNative) return false;
    if (!userAddress) return true;
    try {
      const tokenContract = await provider.readContract({ address: tokenIn as Address, ...,
        functionName: 'allowance', args: [userAddress as Address, spenderAddress] });
      const currentAllowance = tokenContract as bigint;
      return currentAllowance < amountInParsed;
    } catch (error) { return true; }
  };
  \<close>
  With no router address in the environment the read cannot be formed and raises
  inside the \<^verbatim>\<open>try\<close>.
\<close>

definition checkApprovalNeeded ::
  "External \<Rightarrow> bool \<Rightarrow> string option \<Rightarrow> string \<Rightarrow> int \<Rightarrow> string option \<Rightarrow> bool traced" where
  "checkApprovalNeeded ext isNat userAddress tIn amountInParsed spenderAddress =
     (if isNat then returnT False
      else if falsy userAddress then returnT True
      else
        case spenderAddress of
          None \<Rightarrow> returnT True
        | Some spender \<Rightarrow>
            ([Erc20Allowance tIn (str userAddress) spender],
             Inr (case erc20_allowance ext tIn (str userAddress) spender of
                    Inr currentAllowance \<Rightarrow> currentAllowance < amountInParsed
                  | Inl e \<Rightarrow> True)))"

text \<open>The approval object of a route, for the outcome of the check.\<close>

definition approvalInfo ::
  "bool \<Rightarrow> string option \<Rightarrow> string \<Rightarrow> string \<Rightarrow> string option \<Rightarrow> int \<Rightarrow> ApprovalInfo" where
  "approvalInfo needsApproval userAddress tokenInSymbol tIn spender amountInParsed =
     (if needsApproval then
        \<lparr>needed = True,
         approval_message = ''Approval required for '' @ tokenInSymbol,
         approval_token = Some tIn,
         approval_spender = spender,
         approval_amount = Some (bigint_toString amountInParsed)\<rparr>
      else
        \<lparr>needed = False,
         approval_message = (if \<not> falsy userAddress then tokenInSymbol @ '' already approved''
                             else ''No approval needed for native token''),
         approval_token = None,
         approval_spender = None,
         approval_amount = None\<rparr>)"

definition percentString :: "nat \<Rightarrow> rat \<Rightarrow> string option" where
  \<comment> \<open>\<^verbatim>\<open>`${x.toFixed(f)}%`\<close>\<close>
  "percentString f x = map_option (\<lambda>s. s @ ''%'') (toFixed f x)"

definition routeInfo ::
  "DexQuote \<Rightarrow> nat \<Rightarrow> string option \<Rightarrow> string \<Rightarrow> string \<Rightarrow> ApprovalInfo \<Rightarrow> RouteInfo" where
  "routeInfo q outDecimals router calldata valueToSend appr =
     \<lparr>route_dex = dex q,
      route_dexName = dexName q,
      route_feeTier = feeTier q,
      route_amountOut = formatTokenAmount (amountOut q) outDecimals 6,
      route_amountOutWei = bigint_toString (amountOut q),
      route_priceImpact = percentString 4 (priceImpact q),
      route_gasEstimate = map_option bigint_toString (gasEstimate q),
      route_poolAddress = poolAddress q,
      transaction = \<lparr>tx_to = router, tx_data = calldata, tx_value = valueToSend,
                      tx_from = ZERO_ADDRESS\<rparr>,
      approval = appr\<rparr>"

text \<open>
  One element of \<^verbatim>\<open>formattedQuotesPromises\<close>: the call is encoded (an encoding error
  rejects the promise before any read), then the allowance towards the router of this
  route is checked.
\<close>

definition formatQuote ::
  "External \<Rightarrow> AggregatedQuote \<Rightarrow> bool \<Rightarrow> string option \<Rightarrow> string \<Rightarrow> string \<Rightarrow> int \<Rightarrow> int
     \<Rightarrow> nat \<Rightarrow> DexQuote \<Rightarrow> RouteInfo traced" where
  "formatQuote ext quote isNat userAddress tIn tOut amountInParsed bps deadline q =
     (let quoteRouterAddress = routerFor ext (dex q);
          quoteMinAmountOut = minAmountOutOf (amountOut q) bps;
          (call, quoteValueToSend) =
             routeCall q isNat tIn tOut amountInParsed quoteMinAmountOut deadline
      in bindT (liftT (encodeFunctionData ext call))
           (\<lambda>quoteCalldata.
              bindT (checkApprovalNeeded ext isNat userAddress tIn amountInParsed quoteRouterAddress)
                (\<lambda>needsApprovalForRoute.
                   returnT (routeInfo q (decimals (tokenOut quote)) quoteRouterAddress
                              quoteCalldata quoteValueToSend
                              (approvalInfo needsApprovalForRoute userAddress
                                 (symbol (tokenIn quote)) tIn quoteRouterAddress
                                 amountInParsed)))))"

text \<open>
  The decimals of the input token: the registry first, the chain for an unknown token;
  a failure there is answered at once with status 400 and a message that repeats the
  token as it was supplied.
\<close>

definition resolveDecimals ::
  "External \<Rightarrow> AggregatorService \<Rightarrow> string \<Rightarrow> ChainCall list \<times> (string + nat)" where
  "resolveDecimals ext svc tIn =
     (case getByAddress MAINNET_TOKENS tIn of
        Some knownTokenIn \<Rightarrow> ([], Inr (decimals knownTokenIn))
      | None \<Rightarrow>
          (case getTokenInfo ext svc tIn of
             (cs, Inl e) \<Rightarrow> (cs, Inl (''Unable to fetch token decimals for tokenIn: '' @ tIn))
           | (cs, Inr tokenInfo) \<Rightarrow> (cs, Inr (decimals tokenInfo))))"

text \<open>
  The object the handler sends on success, from the aggregated quote, the parsed
  amount, the minimum amount out, the best route and the formatted quotes.
\<close>

definition responseData ::
  "AggregatedQuote \<Rightarrow> string \<Rightarrow> int \<Rightarrow> rat \<Rightarrow> int \<Rightarrow> RouteInfo \<Rightarrow> RouteInfo list \<Rightarrow> QuoteData" where
  "responseData quote aIn amountInParsed slippage minOut best formattedQuotes =
     \<lparr>data_tokenIn =
        \<lparr>side_address = address (tokenIn quote),
         side_symbol = symbol (tokenIn quote),
         side_amount = Some aIn,
         side_amountWei = bigint_toString amountInParsed\<rparr>,
      data_tokenOut =
        \<lparr>side_address = address (tokenOut quote),
         side_symbol = symbol (tokenOut quote),
         side_amount = formatTokenAmount (amountOut (bestQuote quote)) (decimals (tokenOut quote)) 6,
         side_amountWei = bigint_toString (amountOut (bestQuote quote))\<rparr>,
      bestRoute = best,
      data_allQuotes = formattedQuotes,
      data_savings =
        \<lparr>savings_percentage = percentString 2 (percentage (savings quote)),
         savings_amount =
           formatTokenAmount (absoluteAmount (savings quote)) (decimals (tokenOut quote)) 6,
         savings_amountWei = bigint_toString (absoluteAmount (savings quote))\<rparr>,
      data_slippage = slippage,
      minimumAmountOut = formatTokenAmount minOut (decimals (tokenOut quote)) 6,
      minimumAmountOutWei = bigint_toString minOut,
      data_recommendation = recommendation quote\<rparr>"

text \<open>
  From the aggregated quote to the response data: the slippage bound, the deadline,
  the call of the best route (encoded first), the formatted quotes (all started, then
  awaited together), and last the approval check of the best route.
\<close>

definition buildResponse ::
  "External \<Rightarrow> string \<Rightarrow> string \<Rightarrow> string \<Rightarrow> rat \<Rightarrow> string option \<Rightarrow> int \<Rightarrow> AggregatedQuote
     \<Rightarrow> QuoteData traced" where
  "buildResponse ext tIn tOut aIn slippage userAddress amountInParsed quote =
     (let bps = slippageBps slippage;
          minOut = minAmountOutOf (amountOut (bestQuote quote)) bps;
          deadline = now_seconds ext + 1800;
          isNat = isNativeToken tIn;
          routerAddress = routerFor ext (dex (bestQuote quote));
          (call, valueToSend) =
             routeCall (bestQuote quote) isNat tIn tOut amountInParsed minOut deadline
      in bindT (liftT (encodeFunctionData ext call))
           (\<lambda>swapCalldata.
              bindT (promiseAll
                       (map (formatQuote ext quote isNat userAddress tIn tOut amountInParsed
                               bps deadline)
                          (allQuotes quote)))
                (\<lambda>formattedQuotes.
                   bindT (checkApprovalNeeded ext isNat userAddress tIn amountInParsed
                            routerAddress)
                     (\<lambda>bestRouteNeedsApproval.
                        returnT
                          (responseData quote aIn amountInParsed slippage minOut
                             (routeInfo (bestQuote quote) (decimals (tokenOut quote))
                                routerAddress swapCalldata valueToSend
                                (approvalInfo bestRouteNeedsApproval userAddress
                                   (symbol (tokenIn quote)) tIn routerAddress
                                   amountInParsed))
                             formattedQuotes)))))"

text \<open>
  The \<^verbatim>\<open>try\<close> block after the decimals: \<^verbatim>\<open>parseUnits\<close>, the aggregated quote, the
  response data. Whatever it raises is caught by the handler.
\<close>

definition quoteData ::
  "External \<Rightarrow> AggregatorService \<Rightarrow> string \<Rightarrow> string \<Rightarrow> string \<Rightarrow> rat \<Rightarrow> string option
     \<Rightarrow> nat \<Rightarrow> QuoteData traced" where
  "quoteData ext svc tIn tOut aIn slippage userAddress tokenInDecimals =
     bindT (liftT (parseUnits aIn tokenInDecimals))
       (\<lambda>amountInParsed.
          bindT (getAggregatedQuote ext svc tIn tOut amountInParsed)
            (\<lambda>quote. buildResponse ext tIn tOut aIn slippage userAddress amountInParsed quote))"

text \<open>
  The handler: the two validations, the decimals, the \<^verbatim>\<open>try\<close> block, and the
  \<^verbatim>\<open>catch\<close> that answers every error with status 400 and the error's message:
  \<^verbatim>\<open>
  } catch (error: any) {
    res.status(400).json({ success: false, error: error.message });
  }
  \<close>
  The result is the log of the ERC-20 reads and the response (status and body).
\<close>

definition quoteHandler ::
  "External \<Rightarrow> AggregatorService \<Rightarrow> QuoteRequest \<Rightarrow> ChainCall list \<times> response" where
  "quoteHandler ext svc req =
     (if falsy (req_tokenIn req) \<or> falsy (req_tokenOut req) \<or> falsy (req_amountIn req) then
        ([], (400, Failure ''tokenIn, tokenOut, and amountIn are required''))
      else
        let slippage = (case req_slippage req of None \<Rightarrow> 1 / 2 | Some s \<Rightarrow> s);
            tIn = str (req_tokenIn req);
            tOut = str (req_tokenOut req);
            aIn = str (req_amountIn req)
        in if slippage < 0 \<or> 100 < slippage then
             ([], (400, Failure ''slippage must be between 0 and 100''))
           else
             case resolveDecimals ext svc tIn of
               (cs, Inl msg) \<Rightarrow> (cs, (400, Failure msg))
             | (cs, Inr tokenInDecimals) \<Rightarrow>
                 (case quoteData ext svc tIn tOut aIn slippage (req_userAddress req)
                         tokenInDecimals of
                    (cs', Inl e) \<Rightarrow> (cs @ cs', (400, FailureOf e))
                  | (cs', Inr d) \<Rightarrow> (cs @ cs', (200, Success d))))"

text \<open>Readings of the log: the tokens asked for an allowance, and those asked for metadata.\<close>

definition allowanceTokens :: "ChainCall list \<Rightarrow> string list" where
  "allowanceTokens cs =
     concat (map (\<lambda>c. case c of Erc20Allowance t ow sp \<Rightarrow> [t] | other \<Rightarrow> []) cs)"

definition metadataTokens :: "ChainCall list \<Rightarrow> string list" where
  "metadataTokens cs =
     concat (map (\<lambda>c. case c of Erc20Allowance t ow sp \<Rightarrow> []
                        | Erc20Name a \<Rightarrow> [a] | Erc20Symbol a \<Rightarrow> [a] | Erc20Decimals a \<Rightarrow> [a]) cs)"

section \<open>Scenarios\<close>

text \<open>
  Concrete outside worlds, on which the functions above are evaluated. In all of them
  the hash digits are zero, so the checksum case of an address is its lower case; every
  token answers the metadata reads with 18 decimals; the allowance of every owner is
  \<open>2 * 10^18\<close> towards the V2 router and zero towards any other spender; the encoder
  accepts every call.

  \<open>scenario_world v2 t500 t3000\<close>: the V2 venue quotes \<open>v2\<close>, the V3 venue has pools
  in the fee tiers 500 and 3000 that quote \<open>t500\<close> and \<open>t3000\<close>; \<open>None\<close> is a venue or
  tier whose reads fail, and the tiers 100 and 10000 always fail. With \<open>None\<close>,
  \<open>1000000000\<close> and \<open>1002000000\<close> this is the second end-to-end scenario of the
  specification.
\<close>

definition USDC_lower :: string where
  "USDC_lower = ''0xa16148c6ac9ede0d82f0c52899e22a575284f131''"

definition WETH_lower :: string where
  "WETH_lower = ''0x50498dc52bcd3daeb54b7225a7d2fa8d536f313e''"

definition NATIVE_lower :: string where
  "NATIVE_lower = ''0xeeeeeeeeeeeeeeeeeeeeeeeeeeeeeeeeeeeeeeee''"

definition V2_ROUTER :: string where
  "V2_ROUTER = ''0x0000000000000000000000000000000000005002''"

definition V3_ROUTER :: string where
  "V3_ROUTER = ''0x0000000000000000000000000000000000005003''"

definition PAIR :: string where
  "PAIR = ''0x0000000000000000000000000000000000000002''"

definition POOL500 :: string where
  "POOL500 = ''0x00000000000000000000000000000000000001f4''"

definition POOL3000 :: string where
  "POOL3000 = ''0x0000000000000000000000000000000000000bb8''"

definition scenario_world :: "int option \<Rightarrow> int option \<Rightarrow> int option \<Rightarrow> External" where
  "scenario_world v2 t500 t3000 =
     \<lparr>erc20_name = (\<lambda>a. Inr ''Token''),
      erc20_symbol = (\<lambda>a. Inr ''TKN''),
      erc20_decimals = (\<lambda>a. Inr 18),
      erc20_allowance = (\<lambda>t ow sp. if sp = V2_ROUTER then Inr 2000000000000000000 else Inr 0),
      v2_quote_reads = (\<lambda>cfg tI tO amt.
         case v2 of None \<Rightarrow> Inl ChainReadFailed | Some out \<Rightarrow> Inr (PAIR, out, 0)),
      v3_quote_reads = (\<lambda>cfg tI tO amt fee.
         if fee = 500 then
           (case t500 of None \<Rightarrow> Inl ChainReadFailed | Some out \<Rightarrow> Inr (POOL500, out, 0))
         else if fee = 3000 then
           (case t3000 of None \<Rightarrow> Inl ChainReadFailed | Some out \<Rightarrow> Inr (POOL3000, out, 0))
         else Inl ChainReadFailed),
      keccak_nibble = (\<lambda>h i. 0),
      encodeFunctionData = (\<lambda>c. Inr ''0x''),
      env_FACTORY_ADDRESS = Some ''0x000000000000000000000000000000000000f002'',
      env_ROUTER_ADDRESS = Some V2_ROUTER,
      env_INIT_CODE_HASH = None,
      env_V3_FACTORY_ADDRESS = Some ''0x000000000000000000000000000000000000f003'',
      env_V3_QUOTER_ADDRESS = Some ''0x000000000000000000000000000000000000a003'',
      env_V3_SWAP_ROUTER_ADDRESS = Some V3_ROUTER,
      now_seconds = 1700000000\<rparr>"

definition scenario_service :: "int option \<Rightarrow> int option \<Rightarrow> int option \<Rightarrow> AggregatorService" where
  "scenario_service v2 t500 t3000 = AggregatorService_new (DEXES (scenario_world v2 t500 t3000))"

definition scenario_token :: "string \<Rightarrow> Token" where
  "scenario_token a =
     \<lparr>address = a, symbol = ''TKN'', name = ''Token'', decimals = 18, isNative = None\<rparr>"

definition quoteV2 :: "int \<Rightarrow> DexQuote" where
  "quoteV2 out =
     \<lparr>dex = V2, dexName = ''Hammy Swap'', amountOut = out, priceImpact = 0,
      priceImpactWarning = Some (getPriceImpactWarning 0),
      gasEstimate = None, feeTier = None, poolAddress = Some PAIR\<rparr>"

definition quoteV3 :: "nat \<Rightarrow> string \<Rightarrow> int \<Rightarrow> DexQuote" where
  "quoteV3 fee pool out =
     \<lparr>dex = V3, dexName = ''Surge Dex'', amountOut = out, priceImpact = 0,
      priceImpactWarning = Some (getPriceImpactWarning 0),
      gasEstimate = Some 150000, feeTier = Some fee, poolAddress = Some pool\<rparr>"

definition quote500 :: "int \<Rightarrow> DexQuote" where
  "quote500 out = quoteV3 500 POOL500 out"

definition quote3000 :: "int \<Rightarrow> DexQuote" where
  "quote3000 out = quoteV3 3000 POOL3000 out"

text \<open>
  The aggregated quotes of three scenarios, for USDC in and WETH out: the second
  end-to-end scenario; two tiers that quote the same amount; a single V2 quote.
\<close>

definition scenario2_result :: AggregatedQuote where
  "scenario2_result =
     \<lparr>bestQuote = quote3000 1002000000,
      allQuotes = [quote500 1000000000, quote3000 1002000000],
      tokenIn = scenario_token USDC_lower, tokenOut = scenario_token WETH_lower,
      amountIn = 1000000,
      savings = \<lparr>percentage = 1 / 5, absoluteAmount = 2000000\<rparr>,
      recommendation = Some ''Use Surge Dex V3 (0.30% fee tier) for 0.20% better price''\<rparr>"

definition tie_result :: AggregatedQuote where
  "tie_result =
     \<lparr>bestQuote = quote500 1000000000,
      allQuotes = [quote500 1000000000, quote3000 1000000000],
      tokenIn = scenario_token USDC_lower, tokenOut = scenario_token WETH_lower,
      amountIn = 1000000,
      savings = \<lparr>percentage = 0, absoluteAmount = 0\<rparr>,
      recommendation = Some ''Use Surge Dex V3 (0.05% fee tier)''\<rparr>"


text \<open>
  Three requests: the native token in with a user address; USDC in with a user
  address; USDC in without one.
\<close>

definition USER_lower :: string where
  "USER_lower = ''0x00000000000000000000000000000000000000aa''"

definition native_request :: QuoteRequest where
  "native_request =
     \<lparr>req_tokenIn = Some NATIVE_lower, req_tokenOut = Some USDC_lower,
      req_amountIn = Some ''0.001'', req_slippage = Some (1 / 2),
      req_userAddress = Some USER_lower\<rparr>"

definition usdc_request :: QuoteRequest where
  "usdc_request =
     \<lparr>req_tokenIn = Some USDC_lower, req_tokenOut = Some WETH_lower,
      req_amountIn = Some ''1'', req_slippage = None,
      req_userAddress = Some USER_lower\<rparr>"

text \<open>
  The responses to the native request where only the V2 venue quotes (the third
  end-to-end scenario), and to the USDC request where the V2 venue quotes \<open>0.999\<close> and
  the tier 500 quotes \<open>1.0\<close> (the fourth: the allowance covers the V2 router only).
\<close>

definition native_route :: RouteInfo where
  "native_route =
     \<lparr>route_dex = V2, route_dexName = ''Hammy Swap'', route_feeTier = None,
      route_amountOut = Some ''1.149151'', route_amountOutWei = ''1149150689798175283'',
      route_priceImpact = Some ''0.0000%'', route_gasEstimate = None,
      route_poolAddress = Some PAIR,
      transaction = \<lparr>tx_to = Some V2_ROUTER, tx_data = ''0x'',
                      tx_value = ''1000000000000000'', tx_from = ZERO_ADDRESS\<rparr>,
      approval = \<lparr>needed = False, approval_message = ''TKN already approved'',
                   approval_token = None, approval_spender = None, approval_amount = None\<rparr>\<rparr>"

definition native_response :: QuoteData where
  "native_response =
     \<lparr>data_tokenIn = \<lparr>side_address = NATIVE_lower, side_symbol = ''TKN'',
                       side_amount = Some ''0.001'', side_amountWei = ''1000000000000000''\<rparr>,
      data_tokenOut = \<lparr>side_address = USDC_lower, side_symbol = ''TKN'',
                        side_amount = Some ''1.149151'',
                        side_amountWei = ''1149150689798175283''\<rparr>,
      bestRoute = native_route,
      data_allQuotes = [native_route],
      data_savings = \<lparr>savings_percentage = Some ''0.00%'', savings_amount = Some ''0'',
                       savings_amountWei = ''0''\<rparr>,
      data_slippage = 1 / 2,
      minimumAmountOut = Some ''1.143405'',
      minimumAmountOutWei = ''1143404936349184406'',
      data_recommendation = Some ''Use Hammy Swap V2''\<rparr>"

definition native_log :: "ChainCall list" where
  "native_log =
     [Erc20Name NATIVE_lower, Erc20Symbol NATIVE_lower, Erc20Decimals NATIVE_lower,
      Erc20Name USDC_lower, Erc20Symbol USDC_lower, Erc20Decimals USDC_lower]"

definition usdc_route_v2 :: RouteInfo where
  "usdc_route_v2 =
     \<lparr>route_dex = V2, route_dexName = ''Hammy Swap'', route_feeTier = None,
      route_amountOut = Some ''0.999000'', route_amountOutWei = ''999000000000000000'',
      route_priceImpact = Some ''0.0000%'', route_gasEstimate = None,
      route_poolAddress = Some PAIR,
      transaction = \<lparr>tx_to = Some V2_ROUTER, tx_data = ''0x'', tx_value = ''0'',
                      tx_from = ZERO_ADDRESS\<rparr>,
      approval = \<lparr>needed = False, approval_message = ''TKN already approved'',
                   approval_token = None, approval_spender = None, approval_amount = None\<rparr>\<rparr>"

definition usdc_route_v3 :: RouteInfo where
  "usdc_route_v3 =
     \<lparr>route_dex = V3, route_dexName = ''Surge Dex'', route_feeTier = Some 500,
      route_amountOut = Some ''1.000000'', route_amountOutWei = ''1000000000000000000'',
      route_priceImpact = Some ''0.0000%'', route_gasEstimate = Some ''150000'',
      route_poolAddress = Some POOL500,
      transaction = \<lparr>tx_to = Some V3_ROUTER, tx_data = ''0x'', tx_value = ''0'',
                      tx_from = ZERO_ADDRESS\<rparr>,
      approval = \<lparr>needed = True, approval_message = ''Approval required for TKN'',
                   approval_token = Some USDC_lower, approval_spender = Some V3_ROUTER,
                   approval_amount = Some ''1000000''\<rparr>\<rparr>"

definition usdc_response :: QuoteData where
  "usdc_response =
     \<lparr>data_tokenIn = \<lparr>side_address = USDC_lower, side_symbol = ''TKN'',
                       side_amount = Some ''1'', side_amountWei = ''1000000''\<rparr>,
      data_tokenOut = \<lparr>side_address = WETH_lower, side_symbol = ''TKN'',
                        side_amount = Some ''1.000000'',
                        side_amountWei = ''1000000000000000000''\<rparr>,
      bestRoute = usdc_route_v3,
      data_allQuotes = [usdc_route_v2, usdc_route_v3],
      data_savings = \<lparr>savings_percentage = Some ''0.10%'', savings_amount = Some ''0.001000'',
                       savings_amountWei = ''1000000000000000''\<rparr>,
      data_slippage = 1 / 2,
      minimumAmountOut = Some ''0.995000'',
      minimumAmountOutWei = ''995000000000000000'',
      data_recommendation = Some ''Use Surge Dex V3 (0.05% fee tier) for 0.10% better price''\<rparr>"

definition usdc_log :: "ChainCall list" where
  "usdc_log =
     [Erc20Name USDC_lower, Erc20Symbol USDC_lower, Erc20Decimals USDC_lower,
      Erc20Name WETH_lower, Erc20Symbol WETH_lower, Erc20Decimals WETH_lower,
      Erc20Allowance USDC_lower USER_lower V2_ROUTER,
      Erc20Allowance USDC_lower USER_lower V3_ROUTER,
      Erc20Allowance USDC_lower USER_lower V3_ROUTER]"

text \<open>The aggregated quotes from which the two responses are built.\<close>

definition native_quote :: AggregatedQuote where
  "native_quote =
     \<lparr>bestQuote = quoteV2 1149150689798175283,
      allQuotes = [quoteV2 1149150689798175283],
      tokenIn = scenario_token NATIVE_lower, tokenOut = scenario_token USDC_lower,
      amountIn = 1000000000000000,
      savings = \<lparr>percentage = 0, absoluteAmount = 0\<rparr>,
      recommendation = Some ''Use Hammy Swap V2''\<rparr>"

definition usdc_quote :: AggregatedQuote where
  "usdc_quote =
     \<lparr>bestQuote = quote500 1000000000000000000,
      allQuotes = [quoteV2 999000000000000000, quote500 1000000000000000000],
      tokenIn = scenario_token USDC_lower, tokenOut = scenario_token WETH_lower,
      amountIn = 1000000,
      savings = \<lparr>percentage = 1 / 10, absoluteAmount = 1000000000000000\<rparr>,
      recommendation = Some ''Use Surge Dex V3 (0.05% fee tier) for 0.10% better price''\<rparr>"


definition no_contracts :: "External \<Rightarrow> External" where
  "no_contracts ext =
     ext\<lparr>erc20_name := (\<lambda>a. Inl ChainReadFailed),
         erc20_symbol := (\<lambda>a. Inl ChainReadFailed),
         erc20_decimals := (\<lambda>a. Inl ChainReadFailed)\<rparr>"

definition UNKNOWN_lower :: string where
  "UNKNOWN_lower = ''0x00000000000000000000000000000000000000ab''"

definition UNKNOWN_upper :: string where
  "UNKNOWN_upper = ''0x00000000000000000000000000000000000000AB''"

definition unknown_request :: "string \<Rightarrow> QuoteRequest" where
  "unknown_request a =
     \<lparr>req_tokenIn = Some a, req_tokenOut = Some WETH_lower,
      req_amountIn = Some ''1'', req_slippage = None,
      req_userAddress = Some USER_lower\<rparr>"


section \<open>Evaluation on concrete inputs\<close>

text \<open>Rewrite rules that let the simplifier run the string and number functions.\<close>

lemma replicate_numeral: "replicate (numeral k) x = x # replicate (pred_numeral k) x"
  by (simp add: numeral_eq_Suc)

lemma floor_rat_divide_numeral:
  "\<lfloor>(numeral a :: rat) / numeral b\<rfloor> = numeral a div numeral b"
  using floor_divide_of_int_eq [of "numeral a" "numeral b", where ?'a = rat] by simp

lemma nat_toString_small: "n < 10 \<Longrightarrow> nat_toString n = [digit_char n]"
  by (simp add: nat_toString.simps)

lemma nat_toString_large:
  "10 \<le> n \<Longrightarrow> nat_toString n = nat_toString (n div 10) @ [digit_char (n mod 10)]"
  by (subst nat_toString.simps) simp

lemmas eval_numbers = replicate_numeral floor_rat_divide_numeral nat_toString_small
  nat_toString_large digit_char_def round_half_up_def padStart_def padEnd_def Let_def
  stripTrailingZeros_def isDigit_def digits_val_def digit_val_def bigint_toString_def

lemmas eval_address = validateAddress_def isAddress_def addressRegex_def checksumAddress_def
  toLowerCase_def toLowerChar_def toUpperChar_def isHexChar_def

lemmas eval_scenario = scenario_world_def scenario_token_def quoteV2_def quoteV3_def
  quote500_def quote3000_def

lemma AggregatorService_new_DEXES:
  "AggregatorService_new (DEXES ext) =
     [(''Hammy Swap'', V2DexAdapter (UNISWAP_V2_FORK1 ext)),
      (''Surge Dex'', V3DexAdapter (UNISWAP_V3_FORK1 ext))]"
  by (simp add: AggregatorService_new_def DEXES_def getV2Dexes_def getV3Dexes_def
        UNISWAP_V2_FORK1_def UNISWAP_V3_FORK1_def)

lemma validateAddress_USDC_lower: "validateAddress (\<lambda>h i. 0) USDC_lower = Inr USDC_lower"
  by (simp add: eval_address USDC_lower_def)

lemma validateAddress_WETH_lower: "validateAddress (\<lambda>h i. 0) WETH_lower = Inr WETH_lower"
  by (simp add: eval_address WETH_lower_def)

lemma validateAddress_NATIVE_lower: "validateAddress (\<lambda>h i. 0) NATIVE_lower = Inr NATIVE_lower"
  by (simp add: eval_address NATIVE_lower_def)

lemma getAllQuotes_scenario:
  "getAllQuotes (scenario_world v2 a b) (scenario_service v2 a b) tI tO amt
     = (case v2 of None \<Rightarrow> [] | Some x \<Rightarrow> [quoteV2 x])
       @ (case a of None \<Rightarrow> [] | Some x \<Rightarrow> [quote500 x])
       @ (case b of None \<Rightarrow> [] | Some x \<Rightarrow> [quote3000 x])"
  by (cases v2; cases a; cases b)
     (simp_all add: scenario_service_def AggregatorService_new_DEXES getAllQuotes_def
        V2DexAdapter_getAllQuotes_def V3DexAdapter_getAllQuotes_def V2DexAdapter_getQuote_def
        V3DexAdapter_getQuote_def DEFAULT_FEE_TIERS_def eval_scenario
        UNISWAP_V2_FORK1_def UNISWAP_V3_FORK1_def)

lemma getTokenInfo_scenario:
  assumes "validateAddress (\<lambda>h i. 0) a = Inr a"
  shows "adapter_getTokenInfo (scenario_world v2 t5 t3) ad a
     = ([Erc20Name a, Erc20Symbol a, Erc20Decimals a], Inr (scenario_token a))"
  using assms
  by (simp add: adapter_getTokenInfo_def Service_getTokenInfo_def eval_scenario)

lemma getAggregatedQuote_scenario:
  assumes "validateAddress (\<lambda>h i. 0) tI = Inr tI" and "validateAddress (\<lambda>h i. 0) tO = Inr tO"
  shows "getAggregatedQuote (scenario_world v2 a b) (scenario_service v2 a b) tI tO amt
     = ([Erc20Name tI, Erc20Symbol tI, Erc20Decimals tI,
         Erc20Name tO, Erc20Symbol tO, Erc20Decimals tO],
        aggregateQuotes (scenario_token tI) (scenario_token tO) amt
          ((case v2 of None \<Rightarrow> [] | Some x \<Rightarrow> [quoteV2 x])
           @ (case a of None \<Rightarrow> [] | Some x \<Rightarrow> [quote500 x])
           @ (case b of None \<Rightarrow> [] | Some x \<Rightarrow> [quote3000 x])))"
proof -
  have "scenario_service v2 a b
      = [(''Hammy Swap'', V2DexAdapter (UNISWAP_V2_FORK1 (scenario_world v2 a b))),
         (''Surge Dex'', V3DexAdapter (UNISWAP_V3_FORK1 (scenario_world v2 a b)))]"
    by (simp add: scenario_service_def AggregatorService_new_DEXES)
  then show ?thesis
    using getAllQuotes_scenario [of v2 a b tI tO amt]
    by (simp add: getAggregatedQuote_def bindT_def liftT_def promiseAll2_def
        getTokenInfo_scenario assms)
qed

lemma aggregate_scenario2:
  "aggregateQuotes (scenario_token USDC_lower) (scenario_token WETH_lower) 1000000
     [quote500 1000000000, quote3000 1002000000] = Inr scenario2_result"
  by (simp add: aggregateQuotes_def selectBestQuote_def selectWorstQuote_def bigint_div_def bigint_quot_def
      makeRecommendation_def toFixed_def eval_numbers quote500_def quote3000_def quoteV3_def
      scenario2_result_def)

lemma aggregate_tie:
  "aggregateQuotes (scenario_token USDC_lower) (scenario_token WETH_lower) 1000000
     [quote500 1000000000, quote3000 1000000000] = Inr tie_result"
  by (simp add: aggregateQuotes_def selectBestQuote_def selectWorstQuote_def bigint_div_def bigint_quot_def
      makeRecommendation_def toFixed_def eval_numbers quote500_def quote3000_def quoteV3_def
      tie_result_def)


lemma scenario2_run:
  "snd (getAggregatedQuote (scenario_world None (Some 1000000000) (Some 1002000000))
          (scenario_service None (Some 1000000000) (Some 1002000000))
          USDC_lower WETH_lower 1000000) = Inr scenario2_result"
  by (simp add: getAggregatedQuote_scenario validateAddress_USDC_lower
      validateAddress_WETH_lower aggregate_scenario2)

lemma tie_run:
  "snd (getAggregatedQuote (scenario_world None (Some 1000000000) (Some 1000000000))
          (scenario_service None (Some 1000000000) (Some 1000000000))
          USDC_lower WETH_lower 1000000) = Inr tie_result"
  by (simp add: getAggregatedQuote_scenario validateAddress_USDC_lower
      validateAddress_WETH_lower aggregate_tie)


lemma amountOut_quotes [simp]:
  "amountOut (quote500 a) = a" "amountOut (quote3000 a) = a" "amountOut (quoteV2 a) = a"
  by (simp_all add: quote500_def quote3000_def quoteV3_def quoteV2_def)

lemma quote500_neq_quote3000 [simp]: "quote500 a \<noteq> quote3000 b"
  by (simp add: quote500_def quote3000_def quoteV3_def)

section \<open>Properties of the numeric primitives\<close>







section \<open>Properties of the aggregator\<close>

text \<open>
  A left fold that replaces the accumulator only by a strictly larger key ends on the
  first element of the list that carries the largest key.
\<close>

lemma fold_keeps_earliest_max:
  fixes key :: "'a \<Rightarrow> int"
  shows "\<exists>i<length (q # qs).
      foldl (\<lambda>acc c. if key c > key acc then c else acc) q qs = (q # qs) ! i
      \<and> (\<forall>j<i. key ((q # qs) ! j)
                 < key (foldl (\<lambda>acc c. if key c > key acc then c else acc) q qs))
      \<and> (\<forall>j<length (q # qs). key ((q # qs) ! j)
                 \<le> key (foldl (\<lambda>acc c. if key c > key acc then c else acc) q qs))"
proof (induction qs rule: rev_induct)
  case Nil
  show ?case by simp
next
  case (snoc x qs)
  let ?pick = "\<lambda>acc c. if key c > key acc then c else acc"
  let ?l = "q # qs"
  let ?b = "foldl ?pick q qs"
  let ?b' = "foldl ?pick q (qs @ [x])"
  from snoc obtain i where i: "i < length ?l" "?b = ?l ! i"
    and before: "\<forall>j<i. key (?l ! j) < key ?b"
    and all: "\<forall>j<length ?l. key (?l ! j) \<le> key ?b"
    by blast
  have app: "q # qs @ [x] = ?l @ [x]" by simp
  have nth_old: "\<And>j. j < length ?l \<Longrightarrow> (q # qs @ [x]) ! j = ?l ! j"
    unfolding app by (simp only: nth_append if_True)
  have nth_new: "(q # qs @ [x]) ! length ?l = x"
    unfolding app by (simp only: nth_append_length)
  have step: "?b' = (if key x > key ?b then x else ?b)"
    by simp
  show ?case
  proof (cases "key x > key ?b")
    case True
    then have best: "?b' = x" by (simp add: step)
    have "length ?l < length (q # qs @ [x])" by simp
    moreover have "?b' = (q # qs @ [x]) ! length ?l"
      by (simp only: best nth_new)
    moreover have "\<forall>j<length ?l. key ((q # qs @ [x]) ! j) < key ?b'"
    proof (intro allI impI)
      fix j assume j: "j < length ?l"
      with all have "key (?l ! j) \<le> key ?b" by blast
      with True j show "key ((q # qs @ [x]) ! j) < key ?b'"
        by (simp only: best nth_old)
    qed
    moreover have "\<forall>j<length (q # qs @ [x]). key ((q # qs @ [x]) ! j) \<le> key ?b'"
    proof (intro allI impI)
      fix j assume j: "j < length (q # qs @ [x])"
      show "key ((q # qs @ [x]) ! j) \<le> key ?b'"
      proof (cases "j < length ?l")
        case jl: True
        with all have "key (?l ! j) \<le> key ?b" by blast
        with True jl show ?thesis by (simp only: best nth_old)
      next
        case False
        with j have "j = length ?l" by simp
        then show ?thesis by (simp only: best nth_new)
      qed
    qed
    ultimately show ?thesis by blast
  next
    case False
    then have best: "?b' = ?b" by (simp add: step)
    have "i < length (q # qs @ [x])" using i by simp
    moreover have "?b' = (q # qs @ [x]) ! i"
      using i by (simp only: best nth_old)
    moreover have "\<forall>j<i. key ((q # qs @ [x]) ! j) < key ?b'"
    proof (intro allI impI)
      fix j assume j: "j < i"
      with i have "j < length ?l" by simp
      with before j show "key ((q # qs @ [x]) ! j) < key ?b'"
        by (simp only: best nth_old)
    qed
    moreover have "\<forall>j<length (q # qs @ [x]). key ((q # qs @ [x]) ! j) \<le> key ?b'"
    proof (intro allI impI)
      fix j assume j: "j < length (q # qs @ [x])"
      show "key ((q # qs @ [x]) ! j) \<le> key ?b'"
      proof (cases "j < length ?l")
        case jl: True
        with all show ?thesis by (simp only: best nth_old)
      next
        case jl: False
        with j have "j = length ?l" by simp
        with False show ?thesis by (simp only: best nth_new)
      qed
    qed
    ultimately show ?thesis by blast
  qed
qed

lemma selectBestQuote_earliest:
  "\<exists>i<length (q # qs).
      selectBestQuote q qs = (q # qs) ! i
      \<and> (\<forall>j<i. amountOut ((q # qs) ! j) < amountOut (selectBestQuote q qs))
      \<and> (\<forall>j<length (q # qs). amountOut ((q # qs) ! j) \<le> amountOut (selectBestQuote q qs))"
  unfolding selectBestQuote_def by (rule fold_keeps_earliest_max)

lemma selectWorstQuote_earliest:
  "\<exists>i<length (q # qs).
      selectWorstQuote q qs = (q # qs) ! i
      \<and> (\<forall>j<i. amountOut (selectWorstQuote q qs) < amountOut ((q # qs) ! j))
      \<and> (\<forall>j<length (q # qs). amountOut (selectWorstQuote q qs) \<le> amountOut ((q # qs) ! j))"
proof -
  have eq: "selectWorstQuote q qs
      = foldl (\<lambda>acc c. if - amountOut c > - amountOut acc then c else acc) q qs"
    by (simp add: selectWorstQuote_def)
  show ?thesis
    using fold_keeps_earliest_max [where key = "\<lambda>x. - amountOut x" and q = q and qs = qs]
    unfolding eq by simp
qed

lemma selectBestQuote_mem: "selectBestQuote q qs \<in> set (q # qs)"
proof -
  from selectBestQuote_earliest [of q qs] obtain i
    where "i < length (q # qs)" "selectBestQuote q qs = (q # qs) ! i" by blast
  then show ?thesis by (metis nth_mem)
qed


lemma selectBestQuote_ge:
  assumes "x \<in> set (q # qs)"
  shows "amountOut x \<le> amountOut (selectBestQuote q qs)"
proof -
  from assms obtain j where "j < length (q # qs)" "(q # qs) ! j = x"
    by (meson in_set_conv_nth)
  with selectBestQuote_earliest [of q qs] show ?thesis by blast
qed


lemma selectBestQuote_Max:
  "amountOut (selectBestQuote q qs) = Max (amountOut ` set (q # qs))"
proof (rule sym, rule Max_eqI)
  show "finite (amountOut ` set (q # qs))" by simp
  show "\<And>y. y \<in> amountOut ` set (q # qs) \<Longrightarrow> y \<le> amountOut (selectBestQuote q qs)"
    using selectBestQuote_ge by blast
  show "amountOut (selectBestQuote q qs) \<in> amountOut ` set (q # qs)"
    using selectBestQuote_mem by blast
qed


text \<open>What a successful \<open>aggregateQuotes\<close> returns, field by field.\<close>

lemma aggregateQuotes_Inr:
  assumes "aggregateQuotes tI tO amt quotes = Inr r"
  obtains q qs bps where "quotes = q # qs"
    and "bigint_div ((amountOut (selectBestQuote q qs) - amountOut (selectWorstQuote q qs)) * 10000)
           (amountOut (selectWorstQuote q qs)) = Inr bps"
    and "bestQuote r = selectBestQuote q qs"
    and "allQuotes r = quotes"
    and "absoluteAmount (savings r)
           = amountOut (selectBestQuote q qs) - amountOut (selectWorstQuote q qs)"
    and "percentage (savings r) = rat_of_int bps / 100"
proof (cases quotes)
  case Nil
  with assms show ?thesis by (simp add: aggregateQuotes_def)
next
  case (Cons q qs)
  let ?d = "bigint_div ((amountOut (selectBestQuote q qs) - amountOut (selectWorstQuote q qs)) * 10000)
           (amountOut (selectWorstQuote q qs))"
  show ?thesis
  proof (cases ?d)
    case (Inl e)
    with assms Cons show ?thesis by (simp add: aggregateQuotes_def Let_def)
  next
    case (Inr bps)
    with assms Cons have "r = \<lparr>bestQuote = selectBestQuote q qs, allQuotes = quotes,
        tokenIn = tI, tokenOut = tO, amountIn = amt,
        savings = \<lparr>percentage = rat_of_int bps / 100,
                   absoluteAmount = amountOut (selectBestQuote q qs)
                                    - amountOut (selectWorstQuote q qs)\<rparr>,
        recommendation = makeRecommendation (selectBestQuote q qs) (rat_of_int bps / 100)\<rparr>"
      by (simp add: aggregateQuotes_def Let_def)
    with Cons Inr that show ?thesis by simp
  qed
qed

text \<open>A successful \<open>getAggregatedQuote\<close> is a successful \<open>aggregateQuotes\<close> of the merged list.\<close>

lemma getAggregatedQuote_Inr:
  assumes "snd (getAggregatedQuote ext adapters tInA tOutA amt) = Inr r"
  obtains tI tO where
    "aggregateQuotes tI tO amt (getAllQuotes ext adapters tInA tOutA amt) = Inr r"
proof (cases adapters)
  case Nil
  with assms show ?thesis by (simp add: getAggregatedQuote_def throwT_def)
next
  case (Cons p rest)
  obtain k firstAdapter where p: "p = (k, firstAdapter)" by (cases p)
  obtain cs res where pa: "promiseAll2 (adapter_getTokenInfo ext firstAdapter tInA)
      (adapter_getTokenInfo ext firstAdapter tOutA) = (cs, res)"
    by (cases "promiseAll2 (adapter_getTokenInfo ext firstAdapter tInA)
      (adapter_getTokenInfo ext firstAdapter tOutA)")
  show ?thesis
  proof (cases res)
    case (Inl e)
    with assms Cons p pa show ?thesis
      by (simp add: getAggregatedQuote_def bindT_def)
  next
    case (Inr toks)
    obtain tI tO where toks: "toks = (tI, tO)" by (cases toks)
    with assms Cons p pa Inr
    have "aggregateQuotes tI tO amt (getAllQuotes ext adapters tInA tOutA amt) = Inr r"
      by (simp add: getAggregatedQuote_def bindT_def liftT_def)
    then show ?thesis by (rule that)
  qed
qed

text \<open>
  Claim C1. Every aggregated quote that \<open>getAggregatedQuote\<close> returns carries the
  merged quote list, which is not empty; its best quote is an element of that list,
  and the amount out of the best quote is the maximum over the list.
\<close>

theorem getAggregatedQuote_best_is_max:
  assumes "snd (getAggregatedQuote ext adapters tInA tOutA amt) = Inr r"
  shows "allQuotes r = getAllQuotes ext adapters tInA tOutA amt
    \<and> allQuotes r \<noteq> []
    \<and> bestQuote r \<in> set (allQuotes r)
    \<and> amountOut (bestQuote r) = Max (amountOut ` set (allQuotes r))"
proof -
  from assms obtain tI tO where
    agg: "aggregateQuotes tI tO amt (getAllQuotes ext adapters tInA tOutA amt) = Inr r"
    by (rule getAggregatedQuote_Inr)
  from agg obtain q qs bps where l: "getAllQuotes ext adapters tInA tOutA amt = q # qs"
    and best: "bestQuote r = selectBestQuote q qs"
    and all: "allQuotes r = getAllQuotes ext adapters tInA tOutA amt"
    by (rule aggregateQuotes_Inr)
  from all l have "allQuotes r \<noteq> []" by simp
  moreover have "bestQuote r \<in> set (allQuotes r)"
    unfolding best all l by (rule selectBestQuote_mem)
  moreover have "amountOut (bestQuote r) = Max (amountOut ` set (allQuotes r))"
    unfolding best all l by (rule selectBestQuote_Max)
  ultimately show ?thesis using all by simp
qed

theorem getAggregatedQuote_best_is_max_witness:
  "snd (getAggregatedQuote (scenario_world None (Some 1000000000) (Some 1002000000))
          (scenario_service None (Some 1000000000) (Some 1002000000))
          USDC_lower WETH_lower 1000000) = Inr scenario2_result
   \<and> allQuotes scenario2_result \<noteq> []
   \<and> bestQuote scenario2_result \<in> set (allQuotes scenario2_result)
   \<and> amountOut (bestQuote scenario2_result) = Max (amountOut ` set (allQuotes scenario2_result))
   \<and> amountOut (bestQuote scenario2_result) = 1002000000"
proof -
  have "amountOut (bestQuote scenario2_result) = 1002000000"
    by (simp add: scenario2_result_def)
  with getAggregatedQuote_best_is_max [OF scenario2_run] scenario2_run
  show ?thesis by blast
qed

text \<open>
  Claim C3 as stated fails. In the second end-to-end scenario the tier 500 quotes
  \<open>1000000000\<close> and the tier 3000 quotes \<open>1002000000\<close>: the returned list keeps the
  order of the tiers, so it is not ordered by amount out descending, and its first
  element is not the best quote.
\<close>

theorem allQuotes_not_ranked_counterexample:
  "snd (getAggregatedQuote (scenario_world None (Some 1000000000) (Some 1002000000))
          (scenario_service None (Some 1000000000) (Some 1002000000))
          USDC_lower WETH_lower 1000000) = Inr scenario2_result
   \<and> allQuotes scenario2_result = [quote500 1000000000, quote3000 1002000000]
   \<and> \<not> sorted_wrt (\<lambda>x y. amountOut x \<ge> amountOut y) (allQuotes scenario2_result)
   \<and> bestQuote scenario2_result = quote3000 1002000000
   \<and> hd (allQuotes scenario2_result) \<noteq> bestQuote scenario2_result"
  using scenario2_run by (simp add: scenario2_result_def)

text \<open>
  Claim C3, amended. The list \<open>allQuotes\<close> of an aggregated quote is the merged list
  of the adapters' quotes, in the order the adapters returned them: no ranking is
  applied to it. Whenever that list happens to be ordered by amount out descending,
  its first element is the best quote.
\<close>

theorem allQuotes_in_merge_order:
  assumes "snd (getAggregatedQuote ext adapters tInA tOutA amt) = Inr r"
  shows "allQuotes r = getAllQuotes ext adapters tInA tOutA amt
    \<and> (sorted_wrt (\<lambda>x y. amountOut x \<ge> amountOut y) (allQuotes r)
         \<longrightarrow> bestQuote r = hd (allQuotes r))"
proof -
  from assms obtain tI tO where
    agg: "aggregateQuotes tI tO amt (getAllQuotes ext adapters tInA tOutA amt) = Inr r"
    by (rule getAggregatedQuote_Inr)
  from agg obtain q qs bps where l: "getAllQuotes ext adapters tInA tOutA amt = q # qs"
    and best: "bestQuote r = selectBestQuote q qs"
    and all: "allQuotes r = getAllQuotes ext adapters tInA tOutA amt"
    by (rule aggregateQuotes_Inr)
  have "selectBestQuote q qs = q" if srt: "sorted_wrt (\<lambda>x y. amountOut x \<ge> amountOut y) (q # qs)"
  proof -
    from selectBestQuote_earliest [of q qs] obtain i where i: "i < length (q # qs)"
      and at: "selectBestQuote q qs = (q # qs) ! i"
      and before: "\<forall>j<i. amountOut ((q # qs) ! j) < amountOut (selectBestQuote q qs)"
      by blast
    have "i = 0"
    proof (rule ccontr)
      assume "i \<noteq> 0"
      then have pos: "0 < i" by simp
      with before have "amountOut ((q # qs) ! 0) < amountOut ((q # qs) ! i)"
        unfolding at [symmetric] by blast
      moreover from srt pos i have "amountOut ((q # qs) ! 0) \<ge> amountOut ((q # qs) ! i)"
        by (rule sorted_wrt_nth_less)
      ultimately show False by simp
    qed
    with at show ?thesis by simp
  qed
  with best all l show ?thesis by simp
qed

theorem allQuotes_in_merge_order_witness:
  "snd (getAggregatedQuote (scenario_world None (Some 1000000000) (Some 1000000000))
          (scenario_service None (Some 1000000000) (Some 1000000000))
          USDC_lower WETH_lower 1000000) = Inr tie_result
   \<and> allQuotes tie_result
       = getAllQuotes (scenario_world None (Some 1000000000) (Some 1000000000))
           (scenario_service None (Some 1000000000) (Some 1000000000))
           USDC_lower WETH_lower 1000000
   \<and> sorted_wrt (\<lambda>x y. amountOut x \<ge> amountOut y) (allQuotes tie_result)
   \<and> bestQuote tie_result = hd (allQuotes tie_result)"
proof -
  have "sorted_wrt (\<lambda>x y. amountOut x \<ge> amountOut y) (allQuotes tie_result)"
    by (simp add: tie_result_def)
  with allQuotes_in_merge_order [OF tie_run] tie_run
  show ?thesis by blast
qed



text \<open>
  Claim C10. With the configured venues, the merged list holds the V2 venue's quote
  first and then the V3 venue's quotes in the order of the fee tiers 100, 500, 3000,
  10000. The best quote of a returned aggregated quote is the earliest element of the
  merged list that carries the maximal amount out: every element before it has a
  strictly smaller amount. The worst quote, selected by the mirrored reduction, is
  the earliest element with the minimal amount out.
\<close>

theorem ties_keep_earliest:
  "getAllQuotes ext (AggregatorService_new (DEXES ext)) tInA tOutA amt
     = V2DexAdapter_getAllQuotes ext (UNISWAP_V2_FORK1 ext) tInA tOutA amt
       @ concat (map (\<lambda>fee. case V3DexAdapter_getQuote ext (UNISWAP_V3_FORK1 ext) tInA tOutA amt fee of
                               Inr quote \<Rightarrow> [quote] | Inl e \<Rightarrow> [])
                   [100, 500, 3000, 10000])
   \<and> (snd (getAggregatedQuote ext adapters tInA tOutA amt) = Inr r \<longrightarrow>
        (\<exists>i<length (allQuotes r).
           bestQuote r = allQuotes r ! i
           \<and> (\<forall>j<i. amountOut (allQuotes r ! j) < amountOut (bestQuote r))
           \<and> (\<forall>j<length (allQuotes r). amountOut (allQuotes r ! j) \<le> amountOut (bestQuote r))))
   \<and> (\<exists>i<length (q # qs).
          selectWorstQuote q qs = (q # qs) ! i
          \<and> (\<forall>j<i. amountOut (selectWorstQuote q qs) < amountOut ((q # qs) ! j))
          \<and> (\<forall>j<length (q # qs). amountOut (selectWorstQuote q qs) \<le> amountOut ((q # qs) ! j)))"
proof (intro conjI impI)
  have opt: "\<And>x :: error + DexQuote.
      map the (filter (\<lambda>q. q \<noteq> None) [case x of Inr quote \<Rightarrow> Some quote | Inl e \<Rightarrow> None])
        = (case x of Inr quote \<Rightarrow> [quote] | Inl e \<Rightarrow> [])"
    by (simp split: sum.split)
  have "V3DexAdapter_getAllQuotes ext cfg tInA tOutA amt
      = concat (map (\<lambda>fee. case V3DexAdapter_getQuote ext cfg tInA tOutA amt fee of
                               Inr quote \<Rightarrow> [quote] | Inl e \<Rightarrow> [])
                   [100, 500, 3000, 10000])" for cfg
    by (simp add: V3DexAdapter_getAllQuotes_def DEFAULT_FEE_TIERS_def split: sum.split)
  then show "getAllQuotes ext (AggregatorService_new (DEXES ext)) tInA tOutA amt
     = V2DexAdapter_getAllQuotes ext (UNISWAP_V2_FORK1 ext) tInA tOutA amt
       @ concat (map (\<lambda>fee. case V3DexAdapter_getQuote ext (UNISWAP_V3_FORK1 ext) tInA tOutA amt fee of
                               Inr quote \<Rightarrow> [quote] | Inl e \<Rightarrow> [])
                   [100, 500, 3000, 10000])"
    by (simp add: AggregatorService_new_DEXES getAllQuotes_def)
next
  assume ok: "snd (getAggregatedQuote ext adapters tInA tOutA amt) = Inr r"
  then obtain tI tO where
    agg: "aggregateQuotes tI tO amt (getAllQuotes ext adapters tInA tOutA amt) = Inr r"
    by (rule getAggregatedQuote_Inr)
  from agg obtain q' qs' bps where l: "getAllQuotes ext adapters tInA tOutA amt = q' # qs'"
    and best: "bestQuote r = selectBestQuote q' qs'"
    and all: "allQuotes r = getAllQuotes ext adapters tInA tOutA amt"
    by (rule aggregateQuotes_Inr)
  show "\<exists>i<length (allQuotes r).
           bestQuote r = allQuotes r ! i
           \<and> (\<forall>j<i. amountOut (allQuotes r ! j) < amountOut (bestQuote r))
           \<and> (\<forall>j<length (allQuotes r). amountOut (allQuotes r ! j) \<le> amountOut (bestQuote r))"
    unfolding best all l by (rule selectBestQuote_earliest)
next
  show "\<exists>i<length (q # qs).
          selectWorstQuote q qs = (q # qs) ! i
          \<and> (\<forall>j<i. amountOut (selectWorstQuote q qs) < amountOut ((q # qs) ! j))
          \<and> (\<forall>j<length (q # qs). amountOut (selectWorstQuote q qs) \<le> amountOut ((q # qs) ! j))"
    by (rule selectWorstQuote_earliest)
qed

text \<open>
  Two tiers that quote the same amount: the tier 500, which comes first, is both the
  best and the worst quote.
\<close>

theorem ties_keep_earliest_witness:
  "snd (getAggregatedQuote (scenario_world None (Some 1000000000) (Some 1000000000))
          (scenario_service None (Some 1000000000) (Some 1000000000))
          USDC_lower WETH_lower 1000000) = Inr tie_result
   \<and> allQuotes tie_result = [quote500 1000000000, quote3000 1000000000]
   \<and> (\<exists>i<length (allQuotes tie_result).
         bestQuote tie_result = allQuotes tie_result ! i
         \<and> (\<forall>j<i. amountOut (allQuotes tie_result ! j) < amountOut (bestQuote tie_result)))
   \<and> bestQuote tie_result = quote500 1000000000
   \<and> selectWorstQuote (quote500 1000000000) [quote3000 1000000000] = quote500 1000000000"
proof -
  have rest: "allQuotes tie_result = [quote500 1000000000, quote3000 1000000000]"
    "bestQuote tie_result = quote500 1000000000"
    "selectWorstQuote (quote500 1000000000) [quote3000 1000000000] = quote500 1000000000"
    by (simp_all add: tie_result_def selectWorstQuote_def)
  from ties_keep_earliest [where ext = "scenario_world None (Some 1000000000) (Some 1000000000)"
      and adapters = "scenario_service None (Some 1000000000) (Some 1000000000)"
      and tInA = USDC_lower and tOutA = WETH_lower and amt = 1000000 and r = tie_result]
    tie_run
  have "\<exists>i<length (allQuotes tie_result).
         bestQuote tie_result = allQuotes tie_result ! i
         \<and> (\<forall>j<i. amountOut (allQuotes tie_result ! j) < amountOut (bestQuote tie_result))"
    by blast
  with tie_run rest show ?thesis by blast
qed

section \<open>Properties of the HTTP surface\<close>

subsection \<open>Logged computations\<close>

lemma traced_simps [simp]:
  "fst (returnT x) = []" "snd (returnT x) = Inr x"
  "fst (throwT e) = []" "snd (throwT e) = Inl e"
  "fst (liftT r) = []" "snd (liftT r) = r"
  by (simp_all add: returnT_def throwT_def liftT_def)

lemma snd_bindT_Inr:
  "snd (bindT m f) = Inr y \<longleftrightarrow> (\<exists>x. snd m = Inr x \<and> snd (f x) = Inr y)"
  by (cases m; cases "snd m") (auto simp: bindT_def split: prod.splits)

lemma fst_bindT:
  "fst (bindT m f) = fst m @ (case snd m of Inl e \<Rightarrow> [] | Inr x \<Rightarrow> fst (f x))"
  by (cases m; cases "snd m") (auto simp: bindT_def split: prod.splits)

lemma fst_promiseAll: "fst (promiseAll ms) = concat (map fst ms)"
proof (induction ms)
  case Nil
  show ?case by simp
next
  case (Cons m ms)
  obtain cs r where m: "m = (cs, r)" by (cases m)
  obtain cs' rs where p: "promiseAll ms = (cs', rs)" by (cases "promiseAll ms")
  from Cons p show ?case by (simp add: m)
qed

lemma snd_promiseAll_Inr:
  "snd (promiseAll ms) = Inr xs \<Longrightarrow> list_all2 (\<lambda>m x. snd m = Inr x) ms xs"
proof (induction ms arbitrary: xs)
  case Nil
  then show ?case by simp
next
  case (Cons m ms)
  obtain cs r where m: "m = (cs, r)" by (cases m)
  obtain cs' rs where p: "promiseAll ms = (cs', rs)" by (cases "promiseAll ms")
  from Cons.prems m p obtain x xs' where r: "r = Inr x" and rs: "rs = Inr xs'"
    and xs: "xs = x # xs'"
    by (auto split: sum.splits)
  from p rs have "snd (promiseAll ms) = Inr xs'" by simp
  then have "list_all2 (\<lambda>m x. snd m = Inr x) ms xs'" by (rule Cons.IH)
  with m r xs show ?case by simp
qed

lemma allowanceTokens_simps [simp]:
  "allowanceTokens [] = []"
  "allowanceTokens (cs @ cs') = allowanceTokens cs @ allowanceTokens cs'"
  "allowanceTokens (Erc20Name a # cs) = allowanceTokens cs"
  "allowanceTokens (Erc20Symbol a # cs) = allowanceTokens cs"
  "allowanceTokens (Erc20Decimals a # cs) = allowanceTokens cs"
  "allowanceTokens (Erc20Allowance t ow sp # cs) = t # allowanceTokens cs"
  by (simp_all add: allowanceTokens_def)

lemma metadataTokens_simps [simp]:
  "metadataTokens [] = []"
  "metadataTokens (cs @ cs') = metadataTokens cs @ metadataTokens cs'"
  "metadataTokens (Erc20Name a # cs) = a # metadataTokens cs"
  "metadataTokens (Erc20Symbol a # cs) = a # metadataTokens cs"
  "metadataTokens (Erc20Decimals a # cs) = a # metadataTokens cs"
  "metadataTokens (Erc20Allowance t ow sp # cs) = metadataTokens cs"
  by (simp_all add: metadataTokens_def)

lemma allowanceTokens_concat:
  "set (allowanceTokens (concat css)) = (\<Union>cs\<in>set css. set (allowanceTokens cs))"
  by (induction css) simp_all

subsection \<open>The reads of each stage\<close>

lemma Service_getTokenInfo_log:
  "fst (Service_getTokenInfo ext a)
     = (case validateAddress (keccak_nibble ext) a of
          Inl e \<Rightarrow> []
        | Inr c \<Rightarrow> [Erc20Name c, Erc20Symbol c, Erc20Decimals c])"
  by (simp add: Service_getTokenInfo_def split: sum.split)

lemma getTokenInfo_no_allowance: "allowanceTokens (fst (getTokenInfo ext svc a)) = []"
  by (simp add: getTokenInfo_def adapter_getTokenInfo_def Service_getTokenInfo_log
      split: list.split prod.split sum.split)

lemma fst_promiseAll2: "fst (promiseAll2 m1 m2) = fst m1 @ fst m2"
  by (cases m1; cases m2) (simp add: promiseAll2_def)

lemma getAggregatedQuote_log:
  "fst (getAggregatedQuote ext svc tInA tOutA amt)
     = (case svc of
          [] \<Rightarrow> []
        | ad # rest \<Rightarrow> fst (Service_getTokenInfo ext tInA) @ fst (Service_getTokenInfo ext tOutA))"
  by (cases svc)
     (auto simp: getAggregatedQuote_def fst_bindT fst_promiseAll2 adapter_getTokenInfo_def
        split: sum.split prod.split)

lemma getAggregatedQuote_no_allowance:
  "allowanceTokens (fst (getAggregatedQuote ext svc tInA tOutA amt)) = []"
  by (simp add: getAggregatedQuote_log Service_getTokenInfo_log split: list.split sum.split)

lemma checkApprovalNeeded_log:
  "set (allowanceTokens (fst (checkApprovalNeeded ext isNat u tIn amt sp)))
     \<subseteq> (if isNat then {} else {tIn})"
  by (simp add: checkApprovalNeeded_def split: option.split)

lemma checkApprovalNeeded_native:
  "snd (checkApprovalNeeded ext True u tIn amt sp) = Inr False"
  by (simp add: checkApprovalNeeded_def)

lemma fst_bindT_returnT: "fst (bindT m (\<lambda>x. returnT (g x))) = fst m"
  by (cases m; cases "snd m") (auto simp: bindT_def returnT_def)

lemma allowanceTokens_concat_subset:
  assumes "\<And>cs. cs \<in> set css \<Longrightarrow> set (allowanceTokens cs) \<subseteq> S"
  shows "set (allowanceTokens (concat css)) \<subseteq> S"
  using assms by (auto simp: allowanceTokens_concat)

lemma formatQuote_log:
  "set (allowanceTokens (fst (formatQuote ext quote isNat u tIn tOut amt bps dl q)))
     \<subseteq> (if isNat then {} else {tIn})"
proof -
  let ?e = "encodeFunctionData ext
      (fst (routeCall q isNat tIn tOut amt (minAmountOutOf (amountOut q) bps) dl))"
  have log: "fst (formatQuote ext quote isNat u tIn tOut amt bps dl q)
      = (case ?e of
           Inl e \<Rightarrow> []
         | Inr c \<Rightarrow> fst (checkApprovalNeeded ext isNat u tIn amt (routerFor ext (dex q))))"
    by (simp add: formatQuote_def Let_def split_beta fst_bindT fst_bindT_returnT
        split: sum.split)
  show ?thesis
  proof (cases ?e)
    case (Inl e)
    then show ?thesis by (simp add: log)
  next
    case (Inr c)
    then show ?thesis by (simp only: log sum.case checkApprovalNeeded_log)
  qed
qed

lemma buildResponse_log:
  "set (allowanceTokens (fst (buildResponse ext tIn tOut aIn sl u amt quote)))
     \<subseteq> (if isNativeToken tIn then {} else {tIn})"
proof -
  let ?isNat = "isNativeToken tIn"
  let ?S = "if ?isNat then {} else {tIn}"
  let ?bps = "slippageBps sl"
  let ?minOut = "minAmountOutOf (amountOut (bestQuote quote)) ?bps"
  let ?dl = "now_seconds ext + 1800"
  let ?router = "routerFor ext (dex (bestQuote quote))"
  let ?e = "encodeFunctionData ext
      (fst (routeCall (bestQuote quote) ?isNat tIn tOut amt ?minOut ?dl))"
  let ?fs = "map (formatQuote ext quote ?isNat u tIn tOut amt ?bps ?dl) (allQuotes quote)"
  have log: "fst (buildResponse ext tIn tOut aIn sl u amt quote)
      = (case ?e of
           Inl e \<Rightarrow> []
         | Inr c \<Rightarrow>
             concat (map fst ?fs)
             @ (case snd (promiseAll ?fs) of
                  Inl e \<Rightarrow> []
                | Inr formatted \<Rightarrow> fst (checkApprovalNeeded ext ?isNat u tIn amt ?router)))"
    unfolding buildResponse_def Let_def split_beta
    by (simp add: fst_bindT fst_bindT_returnT fst_promiseAll split: sum.split)
  have fq: "set (allowanceTokens (concat (map fst ?fs))) \<subseteq> ?S"
  proof (rule allowanceTokens_concat_subset)
    fix cs assume "cs \<in> set (map fst ?fs)"
    then obtain q where "cs = fst (formatQuote ext quote ?isNat u tIn tOut amt ?bps ?dl q)"
      by auto
    then show "set (allowanceTokens cs) \<subseteq> ?S" by (simp only: formatQuote_log)
  qed
  have ck: "set (allowanceTokens (fst (checkApprovalNeeded ext ?isNat u tIn amt ?router))) \<subseteq> ?S"
    by (rule checkApprovalNeeded_log)
  show ?thesis
  proof (cases ?e)
    case (Inl e)
    then show ?thesis by (simp add: log)
  next
    case enc: (Inr c)
    show ?thesis
    proof (cases "snd (promiseAll ?fs)")
      case (Inl e)
      with enc fq show ?thesis by (simp only: log sum.case allowanceTokens_simps append_Nil2)
    next
      case (Inr formatted)
      with enc fq ck show ?thesis
        by (simp only: log sum.case allowanceTokens_simps set_append Un_subset_iff simp_thms)
    qed
  qed
qed

lemma quoteData_log:
  "set (allowanceTokens (fst (quoteData ext svc tIn tOut aIn sl u dec)))
     \<subseteq> (if isNativeToken tIn then {} else {tIn})"
proof -
  have log: "fst (quoteData ext svc tIn tOut aIn sl u dec)
      = (case parseUnits aIn dec of
           Inl e \<Rightarrow> []
         | Inr amt \<Rightarrow>
             fst (getAggregatedQuote ext svc tIn tOut amt)
             @ (case snd (getAggregatedQuote ext svc tIn tOut amt) of
                  Inl e \<Rightarrow> []
                | Inr quote \<Rightarrow> fst (buildResponse ext tIn tOut aIn sl u amt quote)))"
    by (simp add: quoteData_def fst_bindT split: sum.split)
  show ?thesis
  proof (cases "parseUnits aIn dec")
    case (Inl e)
    then show ?thesis by (simp add: log)
  next
    case pu: (Inr amt)
    show ?thesis
    proof (cases "snd (getAggregatedQuote ext svc tIn tOut amt)")
      case (Inl e)
      with pu show ?thesis by (simp add: log getAggregatedQuote_no_allowance)
    next
      case (Inr quote)
      with pu buildResponse_log [of ext tIn tOut aIn sl u amt quote] show ?thesis
        by (simp only: log sum.case allowanceTokens_simps getAggregatedQuote_no_allowance
            append_Nil)
    qed
  qed
qed

lemma resolveDecimals_log:
  "allowanceTokens (fst (resolveDecimals ext svc tIn)) = []"
  using getTokenInfo_no_allowance [of ext svc tIn]
  by (auto simp: resolveDecimals_def split: option.split prod.split sum.split)

lemma fst_quoteHandler:
  "fst (quoteHandler ext svc req)
     = (let tIn = str (req_tokenIn req);
            sl = (case req_slippage req of None \<Rightarrow> 1 / 2 | Some s \<Rightarrow> s);
            rd = resolveDecimals ext svc tIn
        in if falsy (req_tokenIn req) \<or> falsy (req_tokenOut req) \<or> falsy (req_amountIn req)
           then []
           else if sl < 0 \<or> 100 < sl then []
           else fst rd
                @ (case snd rd of
                     Inl msg \<Rightarrow> []
                   | Inr dec \<Rightarrow>
                       fst (quoteData ext svc tIn (str (req_tokenOut req))
                              (str (req_amountIn req)) sl (req_userAddress req) dec)))"
  unfolding quoteHandler_def Let_def
  by (simp split: prod.split sum.split)

lemma quoteHandler_log:
  "set (allowanceTokens (fst (quoteHandler ext svc req)))
     \<subseteq> (if isNativeToken (str (req_tokenIn req)) then {} else {str (req_tokenIn req)})"
proof -
  let ?tIn = "str (req_tokenIn req)"
  let ?tOut = "str (req_tokenOut req)"
  let ?aIn = "str (req_amountIn req)"
  let ?sl = "case req_slippage req of None \<Rightarrow> 1 / 2 | Some s \<Rightarrow> s"
  let ?rd = "resolveDecimals ext svc ?tIn"
  let ?rest = "case snd ?rd of
                   Inl msg \<Rightarrow> []
                 | Inr dec \<Rightarrow> fst (quoteData ext svc ?tIn ?tOut ?aIn ?sl (req_userAddress req) dec)"
  have rest: "set (allowanceTokens ?rest) \<subseteq> (if isNativeToken ?tIn then {} else {?tIn})"
    by (cases "snd ?rd") (simp_all only: sum.case quoteData_log allowanceTokens_simps
          list.set empty_subsetI)
  have "set (allowanceTokens (fst (quoteHandler ext svc req))) \<subseteq> set (allowanceTokens ?rest)"
    by (simp add: fst_quoteHandler Let_def resolveDecimals_log)
  from this rest show ?thesis by (rule subset_trans)
qed

subsection \<open>What a successful response holds\<close>

lemma routeCall_value:
  "snd (routeCall q isNat tIn tOut amt minOut dl) = (if isNat then bigint_toString amt else ''0'')"
  by (simp add: routeCall_def Let_def)

lemma formatQuote_Inr:
  assumes "snd (formatQuote ext quote isNat u tIn tOut amt bps dl q) = Inr rt"
  shows "tx_value (transaction rt) = (if isNat then bigint_toString amt else ''0'')"
    and "isNat \<Longrightarrow> \<not> needed (approval rt)"
    and "needed (approval rt) \<Longrightarrow> approval_token (approval rt) = Some tIn"
proof -
  from assms obtain calldata needs where
    ck: "snd (checkApprovalNeeded ext isNat u tIn amt (routerFor ext (dex q))) = Inr needs"
    and rt: "rt = routeInfo q (decimals (tokenOut quote)) (routerFor ext (dex q)) calldata
        (snd (routeCall q isNat tIn tOut amt (minAmountOutOf (amountOut q) bps) dl))
        (approvalInfo needs u (symbol (tokenIn quote)) tIn (routerFor ext (dex q)) amt)"
    by (auto simp: formatQuote_def Let_def split_beta snd_bindT_Inr)
  show "tx_value (transaction rt) = (if isNat then bigint_toString amt else ''0'')"
    by (simp add: rt routeInfo_def routeCall_value)
  show "\<not> needed (approval rt)" if "isNat"
    using that ck by (simp add: rt routeInfo_def approvalInfo_def checkApprovalNeeded_native)
  show "approval_token (approval rt) = Some tIn" if "needed (approval rt)"
    using that by (simp add: rt routeInfo_def approvalInfo_def split: if_splits)
qed

lemma buildResponse_Inr:
  assumes "snd (buildResponse ext tIn tOut aIn sl u amt quote) = Inr d"
  shows "side_amountWei (data_tokenIn d) = bigint_toString amt"
    and "side_address (data_tokenIn d) = address (tokenIn quote)"
    and "side_address (data_tokenOut d) = address (tokenOut quote)"
    and "\<forall>rt\<in>set (bestRoute d # data_allQuotes d).
           tx_value (transaction rt) = (if isNativeToken tIn then bigint_toString amt else ''0'')
           \<and> (isNativeToken tIn \<longrightarrow> \<not> needed (approval rt))
           \<and> (needed (approval rt) \<longrightarrow> approval_token (approval rt) = Some tIn)"
    and "length (data_allQuotes d) = length (allQuotes quote)"
proof -
  let ?isNat = "isNativeToken tIn"
  let ?bps = "slippageBps sl"
  let ?minOut = "minAmountOutOf (amountOut (bestQuote quote)) ?bps"
  let ?dl = "now_seconds ext + 1800"
  let ?router = "routerFor ext (dex (bestQuote quote))"
  from assms obtain calldata formatted needs where
    pa: "snd (promiseAll (map (formatQuote ext quote ?isNat u tIn tOut amt ?bps ?dl)
            (allQuotes quote))) = Inr formatted"
    and ck: "snd (checkApprovalNeeded ext ?isNat u tIn amt ?router) = Inr needs"
    and d: "d = responseData quote aIn amt sl ?minOut
        (routeInfo (bestQuote quote) (decimals (tokenOut quote)) ?router calldata
           (snd (routeCall (bestQuote quote) ?isNat tIn tOut amt ?minOut ?dl))
           (approvalInfo needs u (symbol (tokenIn quote)) tIn ?router amt))
        formatted"
    unfolding buildResponse_def Let_def split_beta
    by (auto simp: snd_bindT_Inr)
  from pa have l2: "list_all2 (\<lambda>m x. snd m = Inr x)
      (map (formatQuote ext quote ?isNat u tIn tOut amt ?bps ?dl) (allQuotes quote)) formatted"
    by (rule snd_promiseAll_Inr)
  show "side_amountWei (data_tokenIn d) = bigint_toString amt"
    and "side_address (data_tokenIn d) = address (tokenIn quote)"
    and "side_address (data_tokenOut d) = address (tokenOut quote)"
    by (simp_all add: d responseData_def)
  from l2 show "length (data_allQuotes d) = length (allQuotes quote)"
    by (simp add: d responseData_def list_all2_lengthD [symmetric])
  have each: "tx_value (transaction rt) = (if ?isNat then bigint_toString amt else ''0'')
           \<and> (?isNat \<longrightarrow> \<not> needed (approval rt))
           \<and> (needed (approval rt) \<longrightarrow> approval_token (approval rt) = Some tIn)"
    if "rt \<in> set formatted" for rt
  proof -
    from that obtain i where i: "i < length formatted" "formatted ! i = rt"
      by (meson in_set_conv_nth)
    with l2 have "snd (map (formatQuote ext quote ?isNat u tIn tOut amt ?bps ?dl)
        (allQuotes quote) ! i) = Inr rt"
      by (auto simp: list_all2_conv_all_nth)
    moreover from l2 i have "i < length (allQuotes quote)"
      by (auto dest: list_all2_lengthD)
    ultimately have "snd (formatQuote ext quote ?isNat u tIn tOut amt ?bps ?dl
        (allQuotes quote ! i)) = Inr rt" by simp
    from formatQuote_Inr [OF this] show ?thesis by blast
  qed
  have best: "tx_value (transaction (bestRoute d)) = (if ?isNat then bigint_toString amt else ''0'')
           \<and> (?isNat \<longrightarrow> \<not> needed (approval (bestRoute d)))
           \<and> (needed (approval (bestRoute d)) \<longrightarrow> approval_token (approval (bestRoute d)) = Some tIn)"
    using ck
    by (auto simp: d responseData_def routeInfo_def routeCall_value approvalInfo_def
        checkApprovalNeeded_native split: if_splits)
  have "data_allQuotes d = formatted" by (simp add: d responseData_def)
  with each best show "\<forall>rt\<in>set (bestRoute d # data_allQuotes d).
           tx_value (transaction rt) = (if isNativeToken tIn then bigint_toString amt else ''0'')
           \<and> (isNativeToken tIn \<longrightarrow> \<not> needed (approval rt))
           \<and> (needed (approval rt) \<longrightarrow> approval_token (approval rt) = Some tIn)"
    by auto
qed

lemma quoteData_Inr:
  assumes "snd (quoteData ext svc tIn tOut aIn sl u dec) = Inr d"
  obtains amt quote where "parseUnits aIn dec = Inr amt"
    and "snd (getAggregatedQuote ext svc tIn tOut amt) = Inr quote"
    and "snd (buildResponse ext tIn tOut aIn sl u amt quote) = Inr d"
  using assms by (auto simp: quoteData_def snd_bindT_Inr)

lemma quoteHandler_Success:
  assumes "snd (quoteHandler ext svc req) = (st, Success d)"
  obtains dec where "st = 200"
    and "\<not> falsy (req_tokenIn req)" and "\<not> falsy (req_tokenOut req)"
    and "\<not> falsy (req_amountIn req)"
    and "snd (resolveDecimals ext svc (str (req_tokenIn req))) = Inr dec"
    and "snd (quoteData ext svc (str (req_tokenIn req)) (str (req_tokenOut req))
           (str (req_amountIn req))
           (case req_slippage req of None \<Rightarrow> 1 / 2 | Some s \<Rightarrow> s)
           (req_userAddress req) dec) = Inr d"
  using assms unfolding quoteHandler_def Let_def
  by (auto split: if_splits prod.splits sum.splits)

subsection \<open>The handler on the scenarios\<close>

lemma isNativeToken_scenario [simp]:
  "isNativeToken NATIVE_lower" "\<not> isNativeToken USDC_lower" "\<not> isNativeToken WETH_lower"
  by (simp_all add: isNativeToken_def NATIVE_TOKEN_ADDRESS_def NATIVE_lower_def USDC_lower_def
      WETH_lower_def toLowerCase_def toLowerChar_def)

lemma scenario_address_nonempty [simp]:
  "NATIVE_lower \<noteq> []" "USDC_lower \<noteq> []" "WETH_lower \<noteq> []"
  by (simp_all add: NATIVE_lower_def USDC_lower_def WETH_lower_def)

lemma resolveDecimals_NATIVE_lower: "resolveDecimals ext svc NATIVE_lower = ([], Inr 18)"
  by (simp add: resolveDecimals_def getByAddress_def MAINNET_TOKENS_def NATIVE_lower_def
      toLowerCase_def toLowerChar_def)

lemma resolveDecimals_USDC_lower: "resolveDecimals ext svc USDC_lower = ([], Inr 6)"
  by (simp add: resolveDecimals_def getByAddress_def MAINNET_TOKENS_def USDC_lower_def
      toLowerCase_def toLowerChar_def)

lemmas eval_units = parseUnits_def decimalNumberRegex_def BigInt_def roundsUp_def
  formatTokenAmount_def formatUnits_def parseFloat_def toFixed_def percentString_def

lemmas eval_handler = formatQuote_def routeCall_def checkApprovalNeeded_def approvalInfo_def
  routeInfo_def responseData_def slippageBps_def minAmountOutOf_def bigint_quot_def
  routerFor_def falsy_def str_def bindT_def liftT_def returnT_def

lemma parseUnits_native: "parseUnits ''0.001'' 18 = Inr 1000000000000000"
  by (simp add: eval_units eval_numbers)

lemma parseUnits_usdc: "parseUnits ''1'' 6 = Inr 1000000"
  by (simp add: eval_units eval_numbers)

lemma aggregate_native:
  "aggregateQuotes (scenario_token NATIVE_lower) (scenario_token USDC_lower) 1000000000000000
     [quoteV2 1149150689798175283] = Inr native_quote"
  by (simp add: aggregateQuotes_def selectBestQuote_def selectWorstQuote_def bigint_div_def
      bigint_quot_def makeRecommendation_def toFixed_def eval_numbers quoteV2_def
      native_quote_def)

lemma aggregate_usdc:
  "aggregateQuotes (scenario_token USDC_lower) (scenario_token WETH_lower) 1000000
     [quoteV2 999000000000000000, quote500 1000000000000000000] = Inr usdc_quote"
  by (simp add: aggregateQuotes_def selectBestQuote_def selectWorstQuote_def bigint_div_def
      bigint_quot_def makeRecommendation_def toFixed_def eval_numbers quoteV2_def quote500_def
      quoteV3_def usdc_quote_def)

lemma formatQuote_native:
  "formatQuote (scenario_world v2 a b) native_quote True (Some USER_lower) NATIVE_lower USDC_lower
     1000000000000000 50 1700001800 (quoteV2 1149150689798175283) = ([], Inr native_route)"
  by (simp add: eval_handler eval_units eval_numbers eval_scenario native_quote_def
      native_route_def USER_lower_def)

lemma formatQuote_usdc_v2:
  "formatQuote (scenario_world v2 a b) usdc_quote False (Some USER_lower) USDC_lower WETH_lower
     1000000 50 1700001800 (quoteV2 999000000000000000)
     = ([Erc20Allowance USDC_lower USER_lower V2_ROUTER], Inr usdc_route_v2)"
  by (simp add: eval_handler eval_units eval_numbers eval_scenario usdc_quote_def
      usdc_route_v2_def USER_lower_def)

lemma formatQuote_usdc_v3:
  "formatQuote (scenario_world v2 a b) usdc_quote False (Some USER_lower) USDC_lower WETH_lower
     1000000 50 1700001800 (quote500 1000000000000000000)
     = ([Erc20Allowance USDC_lower USER_lower V3_ROUTER], Inr usdc_route_v3)"
  by (simp add: eval_handler eval_units eval_numbers eval_scenario usdc_quote_def
      usdc_route_v3_def USER_lower_def V2_ROUTER_def V3_ROUTER_def)

lemma buildResponse_native:
  "buildResponse (scenario_world v2 a b) NATIVE_lower USDC_lower ''0.001'' (1 / 2)
     (Some USER_lower) 1000000000000000 native_quote = ([], Inr native_response)"
proof -
  have bps: "slippageBps (1 / 2) = 50" by (simp add: slippageBps_def)
  have dl: "now_seconds (scenario_world v2 a b) + 1800 = 1700001800"
    by (simp add: scenario_world_def)
  have q: "bestQuote native_quote = quoteV2 1149150689798175283"
    "allQuotes native_quote = [quoteV2 1149150689798175283]"
    by (simp_all add: native_quote_def)
  have data: "responseData native_quote ''0.001'' 1000000000000000 (1 / 2)
      (minAmountOutOf 1149150689798175283 50) native_route [native_route] = native_response"
    by (simp add: eval_handler eval_units eval_numbers eval_scenario native_quote_def
        native_response_def)
  have best: "routeInfo (quoteV2 1149150689798175283) (decimals (tokenOut native_quote))
      (routerFor (scenario_world v2 a b) V2) ''0x'' ''1000000000000000''
      (approvalInfo False (Some USER_lower) (symbol (tokenIn native_quote)) NATIVE_lower
         (routerFor (scenario_world v2 a b) V2) 1000000000000000) = native_route"
    by (simp add: eval_handler eval_units eval_numbers eval_scenario native_quote_def
        native_route_def USER_lower_def)
  have call: "routeCall (quoteV2 1149150689798175283) True NATIVE_lower USDC_lower
      1000000000000000 minOut 1700001800
      = (SwapExactETHForTokens minOut [NATIVE_lower, USDC_lower] ZERO_ADDRESS 1700001800,
         ''1000000000000000'')" for minOut
    by (simp add: routeCall_def quoteV2_def eval_numbers)
  have enc: "encodeFunctionData (scenario_world v2 a b) c = Inr ''0x''" for c
    by (simp add: scenario_world_def)
  have ck: "checkApprovalNeeded (scenario_world v2 a b) True u NATIVE_lower amt sp = ([], Inr False)"
    for u amt sp
    by (simp add: checkApprovalNeeded_def returnT_def)
  have dexq: "dex (quoteV2 1149150689798175283) = V2" by (simp add: quoteV2_def)
  show ?thesis
    by (simp add: buildResponse_def bps dl q call enc ck formatQuote_native dexq best data
        bindT_def liftT_def returnT_def)
qed

lemma buildResponse_usdc:
  "buildResponse (scenario_world v2 a b) USDC_lower WETH_lower ''1'' (1 / 2)
     (Some USER_lower) 1000000 usdc_quote
     = ([Erc20Allowance USDC_lower USER_lower V2_ROUTER,
         Erc20Allowance USDC_lower USER_lower V3_ROUTER,
         Erc20Allowance USDC_lower USER_lower V3_ROUTER], Inr usdc_response)"
proof -
  have bps: "slippageBps (1 / 2) = 50" by (simp add: slippageBps_def)
  have dl: "now_seconds (scenario_world v2 a b) + 1800 = 1700001800"
    by (simp add: scenario_world_def)
  have q: "bestQuote usdc_quote = quote500 1000000000000000000"
    "allQuotes usdc_quote = [quoteV2 999000000000000000, quote500 1000000000000000000]"
    by (simp_all add: usdc_quote_def)
  have data: "responseData usdc_quote ''1'' 1000000 (1 / 2)
      (minAmountOutOf 1000000000000000000 50) usdc_route_v3 [usdc_route_v2, usdc_route_v3]
      = usdc_response"
    by (simp add: eval_handler eval_units eval_numbers eval_scenario usdc_quote_def
        usdc_response_def)
  have best: "routeInfo (quote500 1000000000000000000) (decimals (tokenOut usdc_quote))
      (routerFor (scenario_world v2 a b) V3) ''0x'' ''0''
      (approvalInfo True (Some USER_lower) (symbol (tokenIn usdc_quote)) USDC_lower
         (routerFor (scenario_world v2 a b) V3) 1000000) = usdc_route_v3"
    by (simp add: eval_handler eval_units eval_numbers eval_scenario usdc_quote_def
        usdc_route_v3_def USER_lower_def)
  have call: "snd (routeCall (quote500 1000000000000000000) False USDC_lower WETH_lower
      1000000 minOut 1700001800) = ''0''" for minOut
    by (simp add: routeCall_def quote500_def quoteV3_def)
  have enc: "encodeFunctionData (scenario_world v2 a b) c = Inr ''0x''" for c
    by (simp add: scenario_world_def)
  have ck: "checkApprovalNeeded (scenario_world v2 a b) False (Some USER_lower) USDC_lower
      1000000 (routerFor (scenario_world v2 a b) V3)
      = ([Erc20Allowance USDC_lower USER_lower V3_ROUTER], Inr True)"
    by (simp add: checkApprovalNeeded_def returnT_def routerFor_def scenario_world_def
        falsy_def str_def USER_lower_def V2_ROUTER_def V3_ROUTER_def)
  have dexq: "dex (quote500 1000000000000000000) = V3"
    by (simp add: quote500_def quoteV3_def)
  show ?thesis
    by (simp add: buildResponse_def split_beta bps dl q call enc ck formatQuote_usdc_v2
        formatQuote_usdc_v3 dexq best data bindT_def liftT_def returnT_def)
qed

lemma quoteHandler_native:
  "quoteHandler (scenario_world (Some 1149150689798175283) None None)
     (scenario_service (Some 1149150689798175283) None None) native_request
     = (native_log, 200, Success native_response)"
  by (simp add: quoteHandler_def native_request_def falsy_def str_def
      resolveDecimals_NATIVE_lower quoteData_def parseUnits_native bindT_def liftT_def
      getAggregatedQuote_scenario validateAddress_NATIVE_lower validateAddress_USDC_lower
      aggregate_native buildResponse_native native_log_def)

lemma quoteHandler_usdc:
  "quoteHandler (scenario_world (Some 999000000000000000) (Some 1000000000000000000) None)
     (scenario_service (Some 999000000000000000) (Some 1000000000000000000) None) usdc_request
     = (usdc_log, 200, Success usdc_response)"
  by (simp add: quoteHandler_def usdc_request_def falsy_def str_def
      resolveDecimals_USDC_lower quoteData_def parseUnits_usdc bindT_def liftT_def
      getAggregatedQuote_scenario validateAddress_USDC_lower validateAddress_WETH_lower
      aggregate_usdc buildResponse_usdc usdc_log_def)

section \<open>Claims about POST /api/aggregator/quote\<close>

subsection \<open>The stages of a successful request\<close>

lemma quoteHandler_stages:
  assumes "snd (quoteHandler ext svc req) = (st, Success d)"
  obtains dec amt quote where "st = 200"
    and "snd (resolveDecimals ext svc (str (req_tokenIn req))) = Inr dec"
    and "parseUnits (str (req_amountIn req)) dec = Inr amt"
    and "snd (getAggregatedQuote ext svc (str (req_tokenIn req)) (str (req_tokenOut req)) amt)
           = Inr quote"
    and "snd (buildResponse ext (str (req_tokenIn req)) (str (req_tokenOut req))
           (str (req_amountIn req))
           (case req_slippage req of None \<Rightarrow> 1 / 2 | Some s \<Rightarrow> s)
           (req_userAddress req) amt quote) = Inr d"
proof -
  from assms obtain dec where st: "st = 200"
    and rd: "snd (resolveDecimals ext svc (str (req_tokenIn req))) = Inr dec"
    and qd: "snd (quoteData ext svc (str (req_tokenIn req)) (str (req_tokenOut req))
           (str (req_amountIn req))
           (case req_slippage req of None \<Rightarrow> 1 / 2 | Some s \<Rightarrow> s)
           (req_userAddress req) dec) = Inr d"
    by (rule quoteHandler_Success)
  from qd obtain amt quote where "parseUnits (str (req_amountIn req)) dec = Inr amt"
    and "snd (getAggregatedQuote ext svc (str (req_tokenIn req)) (str (req_tokenOut req)) amt)
           = Inr quote"
    and "snd (buildResponse ext (str (req_tokenIn req)) (str (req_tokenOut req))
           (str (req_amountIn req))
           (case req_slippage req of None \<Rightarrow> 1 / 2 | Some s \<Rightarrow> s)
           (req_userAddress req) amt quote) = Inr d"
    by (rule quoteData_Inr)
  with st rd show ?thesis by (rule that)
qed

lemma Service_getTokenInfo_Inr:
  assumes "snd (Service_getTokenInfo ext a) = Inr t"
  shows "isAddress (keccak_nibble ext) a"
    and "address t = checksumAddress (keccak_nibble ext) a"
    and "fst (Service_getTokenInfo ext a)
           = [Erc20Name (address t), Erc20Symbol (address t), Erc20Decimals (address t)]"
  using assms
  by (auto simp: Service_getTokenInfo_def validateAddress_def split: sum.splits if_splits)

lemma aggregateQuotes_tokens:
  assumes "aggregateQuotes tI tO amt quotes = Inr r"
  shows "tokenIn r = tI" and "tokenOut r = tO"
  using assms
  by (auto simp: aggregateQuotes_def Let_def split: list.splits sum.splits)

lemma getAggregatedQuote_tokens:
  assumes "snd (getAggregatedQuote ext svc tInA tOutA amt) = Inr r"
  shows "isAddress (keccak_nibble ext) tInA" and "isAddress (keccak_nibble ext) tOutA"
    and "address (tokenIn r) = checksumAddress (keccak_nibble ext) tInA"
    and "address (tokenOut r) = checksumAddress (keccak_nibble ext) tOutA"
    and "fst (getAggregatedQuote ext svc tInA tOutA amt)
           = [Erc20Name (address (tokenIn r)), Erc20Symbol (address (tokenIn r)),
              Erc20Decimals (address (tokenIn r)),
              Erc20Name (address (tokenOut r)), Erc20Symbol (address (tokenOut r)),
              Erc20Decimals (address (tokenOut r))]"
proof -
  from assms obtain k ad rest where svc: "svc = (k, ad) # rest"
    by (cases svc) (auto simp: getAggregatedQuote_def)
  let ?mI = "Service_getTokenInfo ext tInA" and ?mO = "Service_getTokenInfo ext tOutA"
  from assms svc obtain tI tO where tI: "snd ?mI = Inr tI" and tO: "snd ?mO = Inr tO"
    and agg: "aggregateQuotes tI tO amt (getAllQuotes ext svc tInA tOutA amt) = Inr r"
    by (cases ?mI; cases ?mO)
       (auto simp: getAggregatedQuote_def adapter_getTokenInfo_def snd_bindT_Inr
          promiseAll2_def split: sum.splits)
  from agg have r: "tokenIn r = tI" "tokenOut r = tO" by (rule aggregateQuotes_tokens)+
  from tI show "isAddress (keccak_nibble ext) tInA" by (rule Service_getTokenInfo_Inr)
  from tO show "isAddress (keccak_nibble ext) tOutA" by (rule Service_getTokenInfo_Inr)
  from tI r show "address (tokenIn r) = checksumAddress (keccak_nibble ext) tInA"
    by (simp add: Service_getTokenInfo_Inr)
  from tO r show "address (tokenOut r) = checksumAddress (keccak_nibble ext) tOutA"
    by (simp add: Service_getTokenInfo_Inr)
  have "fst (getAggregatedQuote ext svc tInA tOutA amt) = fst ?mI @ fst ?mO"
    by (simp add: getAggregatedQuote_log svc)
  with tI tO r show "fst (getAggregatedQuote ext svc tInA tOutA amt)
           = [Erc20Name (address (tokenIn r)), Erc20Symbol (address (tokenIn r)),
              Erc20Decimals (address (tokenIn r)),
              Erc20Name (address (tokenOut r)), Erc20Symbol (address (tokenOut r)),
              Erc20Decimals (address (tokenOut r))]"
    by (simp add: Service_getTokenInfo_Inr)
qed

text \<open>The log of a successful request holds the metadata reads of the aggregated quote.\<close>

lemma quoteHandler_Success_log:
  assumes "snd (quoteHandler ext svc req) = (st, Success d)"
  shows "\<exists>amt. set (fst (getAggregatedQuote ext svc (str (req_tokenIn req))
                       (str (req_tokenOut req)) amt))
           \<subseteq> set (fst (quoteHandler ext svc req))
         \<and> (\<exists>quote. snd (getAggregatedQuote ext svc (str (req_tokenIn req))
                       (str (req_tokenOut req)) amt) = Inr quote
               \<and> side_address (data_tokenIn d) = address (tokenIn quote)
               \<and> side_address (data_tokenOut d) = address (tokenOut quote))"
proof -
  let ?tIn = "str (req_tokenIn req)" and ?tOut = "str (req_tokenOut req)"
  let ?aIn = "str (req_amountIn req)"
  let ?sl = "case req_slippage req of None \<Rightarrow> 1 / 2 | Some s \<Rightarrow> s"
  from assms obtain dec amt quote where
    rd: "snd (resolveDecimals ext svc ?tIn) = Inr dec"
    and pu: "parseUnits ?aIn dec = Inr amt"
    and gq: "snd (getAggregatedQuote ext svc ?tIn ?tOut amt) = Inr quote"
    and br: "snd (buildResponse ext ?tIn ?tOut ?aIn ?sl (req_userAddress req) amt quote) = Inr d"
    by (rule quoteHandler_stages)
  from assms have valid: "\<not> (falsy (req_tokenIn req) \<or> falsy (req_tokenOut req)
      \<or> falsy (req_amountIn req))" "\<not> (?sl < 0 \<or> 100 < ?sl)"
    unfolding quoteHandler_def Let_def by (auto split: if_splits)
  have "fst (quoteData ext svc ?tIn ?tOut ?aIn ?sl (req_userAddress req) dec)
      = fst (getAggregatedQuote ext svc ?tIn ?tOut amt)
        @ fst (buildResponse ext ?tIn ?tOut ?aIn ?sl (req_userAddress req) amt quote)"
    using pu gq by (simp add: quoteData_def fst_bindT)
  moreover have "fst (quoteHandler ext svc req)
      = fst (resolveDecimals ext svc ?tIn)
        @ fst (quoteData ext svc ?tIn ?tOut ?aIn ?sl (req_userAddress req) dec)"
    using valid rd by (simp add: fst_quoteHandler Let_def)
  ultimately have "set (fst (getAggregatedQuote ext svc ?tIn ?tOut amt))
      \<subseteq> set (fst (quoteHandler ext svc req))" by auto
  moreover from br have "side_address (data_tokenIn d) = address (tokenIn quote)"
    "side_address (data_tokenOut d) = address (tokenOut quote)"
    by (rule buildResponse_Inr)+
  ultimately show ?thesis using gq by blast
qed

subsection \<open>C5: value to send and approval of a route\<close>

text \<open>
  C5. In every successful response of POST /api/aggregator/quote, every route (the best
  route and each element of \<open>allQuotes\<close>) of a request whose \<open>tokenIn\<close> is the native
  sentinel has \<open>approval.needed = false\<close> and \<open>transaction.value\<close> equal to the parsed
  input amount (\<open>parseUnits\<close> of \<open>amountIn\<close> at the decimals of \<open>tokenIn\<close>, printed in
  decimal); every route of a request whose \<open>tokenIn\<close> is not native has
  \<open>transaction.value = "0"\<close>. A response that is not successful holds no route.
\<close>

theorem quote_value_and_approval:
  assumes "snd (quoteHandler ext svc req) = (st, Success d)"
  shows "\<exists>dec amt.
           snd (resolveDecimals ext svc (str (req_tokenIn req))) = Inr dec
         \<and> parseUnits (str (req_amountIn req)) dec = Inr amt
         \<and> (\<forall>rt\<in>set (bestRoute d # data_allQuotes d).
               (isNativeToken (str (req_tokenIn req)) \<longrightarrow>
                  \<not> needed (approval rt) \<and> tx_value (transaction rt) = bigint_toString amt)
             \<and> (\<not> isNativeToken (str (req_tokenIn req)) \<longrightarrow>
                  tx_value (transaction rt) = ''0''))"
proof -
  let ?tIn = "str (req_tokenIn req)"
  from assms obtain dec amt quote where
    rd: "snd (resolveDecimals ext svc ?tIn) = Inr dec"
    and pu: "parseUnits (str (req_amountIn req)) dec = Inr amt"
    and br: "snd (buildResponse ext ?tIn (str (req_tokenOut req)) (str (req_amountIn req))
           (case req_slippage req of None \<Rightarrow> 1 / 2 | Some s \<Rightarrow> s)
           (req_userAddress req) amt quote) = Inr d"
    by (rule quoteHandler_stages)
  from br have "\<forall>rt\<in>set (bestRoute d # data_allQuotes d).
           tx_value (transaction rt) = (if isNativeToken ?tIn then bigint_toString amt else ''0'')
           \<and> (isNativeToken ?tIn \<longrightarrow> \<not> needed (approval rt))
           \<and> (needed (approval rt) \<longrightarrow> approval_token (approval rt) = Some ?tIn)"
    by (rule buildResponse_Inr)
  then have "\<forall>rt\<in>set (bestRoute d # data_allQuotes d).
               (isNativeToken ?tIn \<longrightarrow>
                  \<not> needed (approval rt) \<and> tx_value (transaction rt) = bigint_toString amt)
             \<and> (\<not> isNativeToken ?tIn \<longrightarrow> tx_value (transaction rt) = ''0'')"
    by (cases "isNativeToken ?tIn") simp_all
  with rd pu show ?thesis by blast
qed

theorem quote_value_and_approval_witness:
  "snd (quoteHandler (scenario_world (Some 1149150689798175283) None None)
          (scenario_service (Some 1149150689798175283) None None) native_request)
     = (200, Success native_response)
   \<and> isNativeToken (str (req_tokenIn native_request))
   \<and> parseUnits (str (req_amountIn native_request)) 18 = Inr 1000000000000000
   \<and> map (\<lambda>rt. (needed (approval rt), tx_value (transaction rt)))
        (bestRoute native_response # data_allQuotes native_response)
       = [(False, bigint_toString 1000000000000000), (False, bigint_toString 1000000000000000)]
   \<and> snd (quoteHandler (scenario_world (Some 999000000000000000) (Some 1000000000000000000) None)
          (scenario_service (Some 999000000000000000) (Some 1000000000000000000) None)
          usdc_request)
     = (200, Success usdc_response)
   \<and> \<not> isNativeToken (str (req_tokenIn usdc_request))
   \<and> map (\<lambda>rt. tx_value (transaction rt)) (bestRoute usdc_response # data_allQuotes usdc_response)
       = [''0'', ''0'', ''0'']"
proof -
  let ?W1 = "scenario_world (Some 1149150689798175283) None None"
  let ?S1 = "scenario_service (Some 1149150689798175283) None None"
  let ?W2 = "scenario_world (Some 999000000000000000) (Some 1000000000000000000) None"
  let ?S2 = "scenario_service (Some 999000000000000000) (Some 1000000000000000000) None"
  have run1: "snd (quoteHandler ?W1 ?S1 native_request) = (200, Success native_response)"
    by (simp add: quoteHandler_native)
  have run2: "snd (quoteHandler ?W2 ?S2 usdc_request) = (200, Success usdc_response)"
    by (simp add: quoteHandler_usdc)
  have tIn1: "str (req_tokenIn native_request) = NATIVE_lower"
    and aIn1: "str (req_amountIn native_request) = ''0.001''"
    and tIn2: "str (req_tokenIn usdc_request) = USDC_lower"
    by (simp_all add: native_request_def usdc_request_def str_def)
  have dec1: "snd (resolveDecimals ?W1 ?S1 NATIVE_lower) = Inr 18"
    by (simp add: resolveDecimals_NATIVE_lower)
  have routes1: "bestRoute native_response # data_allQuotes native_response
      = [native_route, native_route]"
    by (simp add: native_response_def)
  have routes2: "bestRoute usdc_response # data_allQuotes usdc_response
      = [usdc_route_v3, usdc_route_v2, usdc_route_v3]"
    by (simp add: usdc_response_def)
  from quote_value_and_approval [OF run1]
  have "\<not> needed (approval native_route)
      \<and> tx_value (transaction native_route) = bigint_toString 1000000000000000"
    by (simp add: tIn1 aIn1 dec1 parseUnits_native routes1)
  moreover from quote_value_and_approval [OF run2]
  have "tx_value (transaction usdc_route_v3) = ''0'' \<and> tx_value (transaction usdc_route_v2) = ''0''"
    by (auto simp: tIn2 routes2)
  ultimately show ?thesis
    using run1 run2 by (simp add: tIn1 aIn1 tIn2 routes1 routes2 parseUnits_native)
qed

subsection \<open>C6: the ERC-20 reads of a request\<close>

text \<open>
  C6, as stated: no ERC-20 read (name, symbol, decimals, allowance) is issued against
  the native sentinel. The request of the third scenario, whose \<open>tokenIn\<close> is the
  sentinel, is answered after the reads \<open>name\<close>, \<open>symbol\<close> and \<open>decimals\<close> against the
  sentinel: \<open>getAggregatedQuote\<close> reads the metadata of both tokens through the first
  adapter, whose \<open>getTokenInfo\<close> has no case for the native token.
\<close>

theorem native_metadata_reads_counterexample:
  "req_tokenIn native_request = Some NATIVE_lower
   \<and> isNativeToken NATIVE_lower
   \<and> fst (quoteHandler (scenario_world (Some 1149150689798175283) None None)
          (scenario_service (Some 1149150689798175283) None None) native_request)
     = [Erc20Name NATIVE_lower, Erc20Symbol NATIVE_lower, Erc20Decimals NATIVE_lower,
        Erc20Name USDC_lower, Erc20Symbol USDC_lower, Erc20Decimals USDC_lower]"
  by (simp add: quoteHandler_native native_log_def) (simp add: native_request_def)

text \<open>
  C6, amended. No allowance read is issued against the native sentinel: every allowance
  read of a request is made on its \<open>tokenIn\<close>, and none is made when \<open>tokenIn\<close> is
  native. The metadata reads are not guarded: a successful request has read the
  metadata at the addresses it reports for \<open>tokenIn\<close> and \<open>tokenOut\<close>, which are the
  checksum forms of the supplied addresses, the sentinel included.
\<close>

theorem erc20_reads_spec:
  "(\<forall>t\<in>set (allowanceTokens (fst (quoteHandler ext svc req))).
       t = str (req_tokenIn req) \<and> \<not> isNativeToken t)
   \<and> (\<forall>st d. snd (quoteHandler ext svc req) = (st, Success d) \<longrightarrow>
         side_address (data_tokenIn d)
           = checksumAddress (keccak_nibble ext) (str (req_tokenIn req))
       \<and> side_address (data_tokenOut d)
           = checksumAddress (keccak_nibble ext) (str (req_tokenOut req))
       \<and> {Erc20Name (side_address (data_tokenIn d)), Erc20Symbol (side_address (data_tokenIn d)),
          Erc20Decimals (side_address (data_tokenIn d)),
          Erc20Name (side_address (data_tokenOut d)), Erc20Symbol (side_address (data_tokenOut d)),
          Erc20Decimals (side_address (data_tokenOut d))}
         \<subseteq> set (fst (quoteHandler ext svc req)))"
proof (rule conjI; rule ballI allI; (rule allI)?; (rule impI)?)
  fix t assume t: "t \<in> set (allowanceTokens (fst (quoteHandler ext svc req)))"
  with quoteHandler_log [of ext svc req]
  show "t = str (req_tokenIn req) \<and> \<not> isNativeToken t"
    by (cases "isNativeToken (str (req_tokenIn req))") auto
next
  fix st d assume ok: "snd (quoteHandler ext svc req) = (st, Success d)"
  let ?tIn = "str (req_tokenIn req)" and ?tOut = "str (req_tokenOut req)"
  from quoteHandler_Success_log [OF ok] obtain amt quote where
    sub: "set (fst (getAggregatedQuote ext svc ?tIn ?tOut amt))
           \<subseteq> set (fst (quoteHandler ext svc req))"
    and gq: "snd (getAggregatedQuote ext svc ?tIn ?tOut amt) = Inr quote"
    and ai: "side_address (data_tokenIn d) = address (tokenIn quote)"
    and ao: "side_address (data_tokenOut d) = address (tokenOut quote)"
    by blast
  from gq ai have ci: "side_address (data_tokenIn d) = checksumAddress (keccak_nibble ext) ?tIn"
    by (simp add: getAggregatedQuote_tokens)
  from gq ao have co: "side_address (data_tokenOut d) = checksumAddress (keccak_nibble ext) ?tOut"
    by (simp add: getAggregatedQuote_tokens)
  from sub ai ao getAggregatedQuote_tokens(5) [OF gq]
  have "{Erc20Name (side_address (data_tokenIn d)), Erc20Symbol (side_address (data_tokenIn d)),
          Erc20Decimals (side_address (data_tokenIn d)),
          Erc20Name (side_address (data_tokenOut d)), Erc20Symbol (side_address (data_tokenOut d)),
          Erc20Decimals (side_address (data_tokenOut d))}
         \<subseteq> set (fst (quoteHandler ext svc req))"
    by simp
  with ci co show "side_address (data_tokenIn d)
           = checksumAddress (keccak_nibble ext) (str (req_tokenIn req))
       \<and> side_address (data_tokenOut d)
           = checksumAddress (keccak_nibble ext) (str (req_tokenOut req))
       \<and> {Erc20Name (side_address (data_tokenIn d)), Erc20Symbol (side_address (data_tokenIn d)),
          Erc20Decimals (side_address (data_tokenIn d)),
          Erc20Name (side_address (data_tokenOut d)), Erc20Symbol (side_address (data_tokenOut d)),
          Erc20Decimals (side_address (data_tokenOut d))}
         \<subseteq> set (fst (quoteHandler ext svc req))"
    by blast
qed

theorem erc20_reads_spec_witness:
  "allowanceTokens (fst (quoteHandler
        (scenario_world (Some 999000000000000000) (Some 1000000000000000000) None)
        (scenario_service (Some 999000000000000000) (Some 1000000000000000000) None)
        usdc_request))
     = [USDC_lower, USDC_lower, USDC_lower]
   \<and> str (req_tokenIn usdc_request) = USDC_lower
   \<and> \<not> isNativeToken USDC_lower
   \<and> snd (quoteHandler (scenario_world (Some 1149150689798175283) None None)
          (scenario_service (Some 1149150689798175283) None None) native_request)
     = (200, Success native_response)
   \<and> side_address (data_tokenIn native_response) = NATIVE_lower
   \<and> Erc20Name NATIVE_lower
       \<in> set (fst (quoteHandler (scenario_world (Some 1149150689798175283) None None)
          (scenario_service (Some 1149150689798175283) None None) native_request))
   \<and> allowanceTokens (fst (quoteHandler (scenario_world (Some 1149150689798175283) None None)
          (scenario_service (Some 1149150689798175283) None None) native_request)) = []"
proof -
  let ?W1 = "scenario_world (Some 1149150689798175283) None None"
  let ?S1 = "scenario_service (Some 1149150689798175283) None None"
  have run1: "snd (quoteHandler ?W1 ?S1 native_request) = (200, Success native_response)"
    by (simp add: quoteHandler_native)
  have a1: "side_address (data_tokenIn native_response) = NATIVE_lower"
    by (simp add: native_response_def)
  from erc20_reads_spec [of ?W1 ?S1 native_request] run1
  have "Erc20Name (side_address (data_tokenIn native_response))
      \<in> set (fst (quoteHandler ?W1 ?S1 native_request))"
    by blast
  with a1 have "Erc20Name NATIVE_lower \<in> set (fst (quoteHandler ?W1 ?S1 native_request))"
    by simp
  moreover have "allowanceTokens (fst (quoteHandler ?W1 ?S1 native_request)) = []"
    by (simp add: quoteHandler_native native_log_def)
  moreover have "allowanceTokens (fst (quoteHandler
        (scenario_world (Some 999000000000000000) (Some 1000000000000000000) None)
        (scenario_service (Some 999000000000000000) (Some 1000000000000000000) None)
        usdc_request)) = [USDC_lower, USDC_lower, USDC_lower]"
    by (simp add: quoteHandler_usdc usdc_log_def)
  moreover have "str (req_tokenIn usdc_request) = USDC_lower"
    by (simp add: usdc_request_def str_def)
  ultimately show ?thesis using run1 a1 by simp
qed

subsection \<open>C7: the status of a response\<close>







end
